theory Spec2Isabelle
  imports Complex_Main "HOL-Library.AList" "HOL-Library.Sublist"
begin

section \<open>Values, errors and the environment\<close>

text \<open>
  The library is TypeScript running in a browser. Values that come out of
  \<^verbatim>\<open>JSON.parse\<close> or out of a tool handler are JavaScript values; the model keeps the
  JSON-shaped ones. \<open>None\<close> of type \<open>json option\<close> stands for \<^verbatim>\<open>undefined\<close>.
  An object is an association list in property order with distinct keys.
  A string is a list of characters with codes below 256 (the code units of a JavaScript
  string are 16 bits wide).
\<close>

datatype json =
    JNull
  | JBool bool
  | JNumber rat
  | JString string
  | JArray "json list"
  | JObject "(string \<times> json) list"

text \<open>The error classes of \<^verbatim>\<open>library.types.ts\<close>, and the ones the platform throws.\<close>

datatype error =
    SyntaxError string
  | TypeError string
  | NativeError string
  | QuotaExceededError string
  | ZodError string
  | CallbackError string
  | SessionError string "error option"
  | StructuredOutputError string "error option"

fun message :: "error \<Rightarrow> string" where
  "message (SyntaxError m) = m"
| "message (TypeError m) = m"
| "message (NativeError m) = m"
| "message (QuotaExceededError m) = m"
| "message (ZodError m) = m"
| "message (CallbackError m) = m"
| "message (SessionError m c) = m"
| "message (StructuredOutputError m c) = m"

text \<open>
  What the code does to the outside is recorded in a trace. The browser's language model
  is an oracle. \<open>creation w n\<close> is the error with which the \<open>n\<close>-th creation of a native
  session rejects, if it does; \<open>native w n\<close> is what the \<open>n\<close>-th native prompt call does,
  rejecting with an error (an exhausted quota counts as one) or resolving with a text;
  \<open>clock w n\<close> is the time read before that call. Somebody else may call \<^verbatim>\<open>stop()\<close> on an
  agent while it waits: \<open>stops_creating w n\<close> and \<open>stops w n\<close> say whether that happens
  between the start of the \<open>n\<close>-th creation, respectively of the \<open>n\<close>-th prompt call, and the
  agent's next look at its flag. \<open>sessions\<close> and \<open>calls\<close> count the creations and the prompt
  calls made so far.
\<close>

datatype event =
    Prompted string
  | Destroyed nat
  | Warned string
  | Invoked string "json option"
  | Stepped nat

record world =
  creation :: "nat \<Rightarrow> error option"
  native :: "nat \<Rightarrow> error + string"
  clock :: "nat \<Rightarrow> nat"
  stops_creating :: "nat \<Rightarrow> bool"
  stops :: "nat \<Rightarrow> bool"
  sessions :: nat
  calls :: nat
  trace :: "event list"

definition emit :: "event \<Rightarrow> world \<Rightarrow> world" where
  "emit e w = w\<lparr>trace := trace w @ [e]\<rparr>"

definition nl :: string where
  "nl = [CHR 0x0A]"

definition dq :: string where
  "dq = [CHR 0x22]"

section \<open>Schema generation (schema-generator.ts)\<close>

datatype SchemaDefinition = SchemaDefinition
  (stype: string)
  (sproperties: "(string \<times> SchemaDefinition) list option")
  (sitems: "SchemaDefinition option")
  (srequired: "string list option")
  (senum: "string list option")
  (sdescription: "string option")

text \<open>
  A Zod schema, as far as the generator looks into its \<^verbatim>\<open>_def\<close>: the type name and, by
  type, the element type, the shape, the enum values, the inner type or the options.
  Zod types a union's options as a non-empty tuple, and the generator reads
  \<^verbatim>\<open>options[0]!\<close>, so a union carries its first option apart.
  \<open>ZodUnsupported n\<close> is any schema of another type name \<open>n\<close>.
\<close>

datatype ZodType =
    ZodString
  | ZodNumber
  | ZodBoolean
  | ZodArray ZodType
  | ZodObject "(string \<times> ZodType) list"
  | ZodEnum "string list"
  | ZodOptional ZodType
  | ZodNullable ZodType
  | ZodUnion ZodType "ZodType list"
  | ZodUnsupported string

fun typeName :: "ZodType \<Rightarrow> string" where
  "typeName ZodString = ''ZodString''"
| "typeName ZodNumber = ''ZodNumber''"
| "typeName ZodBoolean = ''ZodBoolean''"
| "typeName (ZodArray t) = ''ZodArray''"
| "typeName (ZodObject shape) = ''ZodObject''"
| "typeName (ZodEnum vs) = ''ZodEnum''"
| "typeName (ZodOptional t) = ''ZodOptional''"
| "typeName (ZodNullable t) = ''ZodNullable''"
| "typeName (ZodUnion t ts) = ''ZodUnion''"
| "typeName (ZodUnsupported n) = n"

definition plain :: "string \<Rightarrow> SchemaDefinition" where
  "plain t = SchemaDefinition t None None None None None"

text \<open>The keys pushed to \<^verbatim>\<open>required\<close> while the generator walks an object's shape.\<close>

definition required_keys :: "(string \<times> ZodType) list \<Rightarrow> string list" where
  "required_keys shape = map fst (filter (\<lambda>kv. typeName (snd kv) \<noteq> ''ZodOptional'') shape)"

fun zodSchemaToJsonSchema :: "ZodType \<Rightarrow> SchemaDefinition" where
  "zodSchemaToJsonSchema ZodString = plain ''string''"
| "zodSchemaToJsonSchema ZodNumber = plain ''number''"
| "zodSchemaToJsonSchema ZodBoolean = plain ''boolean''"
| "zodSchemaToJsonSchema (ZodArray t) =
     SchemaDefinition ''array'' None (Some (zodSchemaToJsonSchema t)) None None None"
| "zodSchemaToJsonSchema (ZodObject shape) =
     SchemaDefinition ''object''
       (Some (map (\<lambda>kv. (fst kv, zodSchemaToJsonSchema (snd kv))) shape))
       None
       (if length (required_keys shape) > 0 then Some (required_keys shape) else None)
       None None"
| "zodSchemaToJsonSchema (ZodEnum vs) =
     SchemaDefinition ''string'' None None None (Some vs) None"
| "zodSchemaToJsonSchema (ZodOptional t) = zodSchemaToJsonSchema t"
| "zodSchemaToJsonSchema (ZodNullable t) = zodSchemaToJsonSchema t"
| "zodSchemaToJsonSchema (ZodUnion t ts) = zodSchemaToJsonSchema t"
| "zodSchemaToJsonSchema (ZodUnsupported n) = plain ''string''"

text \<open>The \<^verbatim>\<open>console.warn\<close> calls of the same walk, in order.\<close>

fun zodSchemaWarnings :: "ZodType \<Rightarrow> string list" where
  "zodSchemaWarnings (ZodArray t) = zodSchemaWarnings t"
| "zodSchemaWarnings (ZodObject shape) = concat (map (\<lambda>kv. zodSchemaWarnings (snd kv)) shape)"
| "zodSchemaWarnings (ZodOptional t) = zodSchemaWarnings t"
| "zodSchemaWarnings (ZodNullable t) = zodSchemaWarnings t"
| "zodSchemaWarnings (ZodUnion t ts) = zodSchemaWarnings t"
| "zodSchemaWarnings (ZodUnsupported n) = [''Unsupported Zod type: '' @ n]"
| "zodSchemaWarnings t = []"

definition generateSchema :: "ZodType \<Rightarrow> SchemaDefinition" where
  "generateSchema zodSchema = zodSchemaToJsonSchema zodSchema"

section \<open>The platform\<close>

text \<open>
  Built-ins of the JavaScript engine that the code calls and whose text is not part of
  the repository. They are parameters of the model:
  \<^item> \<open>JSON_parse\<close>: \<^verbatim>\<open>JSON.parse\<close>, \<open>Inl m\<close> when it throws a SyntaxError with message \<open>m\<close>;
  \<^item> \<open>JSON_stringify\<close>: \<^verbatim>\<open>JSON.stringify(v, null, 2)\<close> as it appears inside a template string;
  \<^item> \<open>Number_toString\<close>: the string conversion of a number;
  \<^item> \<open>String_of\<close>: the string conversion of an array or of an object, \<open>Inl m\<close> when it throws a
    TypeError with message \<open>m\<close> (as it does for an object whose \<^verbatim>\<open>toString\<close> and \<^verbatim>\<open>valueOf\<close>
    give no primitive value, such as the one parsed from \<^verbatim>\<open>{"toString": 0}\<close>);
  \<^item> \<open>stringify_schema\<close>: \<^verbatim>\<open>JSON.stringify(schema, null, 2)\<close> of a schema object;
  \<^item> \<open>zod_parse\<close>: the \<^verbatim>\<open>parse\<close> method of a Zod schema, \<open>Inl m\<close> when it throws;
  \<^item> \<open>inherited\<close>: the property names that the \<^verbatim>\<open>in\<close> operator finds on every plain object
    through its prototype;
  \<^item> \<open>exotic_in\<close>, \<open>exotic_keys\<close>: \<^verbatim>\<open>in\<close> and \<^verbatim>\<open>Object.keys\<close> on a value that is not a plain
    object (\<open>Inl m\<close> when they throw a TypeError with message \<open>m\<close>).
\<close>

record platform =
  JSON_parse :: "string \<Rightarrow> string + json"
  JSON_stringify :: "json option \<Rightarrow> string"
  Number_toString :: "rat \<Rightarrow> string"
  String_of :: "json \<Rightarrow> string + string"
  stringify_schema :: "SchemaDefinition \<Rightarrow> string"
  zod_parse :: "ZodType \<Rightarrow> json \<Rightarrow> string + json"
  inherited :: "string \<Rightarrow> bool"
  exotic_in :: "string \<Rightarrow> json option \<Rightarrow> string + bool"
  exotic_keys :: "json option \<Rightarrow> string + string list"

section \<open>Sessions (session-manager.ts)\<close>

text \<open>
  A session manager holds the native session (here the number of the creation that made
  it) and the quota tracker built on it. The session id and the persistence flag serve
  only the storage in \<^verbatim>\<open>localStorage\<close>, which swallows its own errors; they are left out
  with it.
\<close>

record SessionManager =
  session :: "nat option"
  quotaTracker :: "nat option"

definition new_SessionManager :: SessionManager where
  "new_SessionManager = \<lparr>session = None, quotaTracker = None\<rparr>"

definition destroy :: "SessionManager \<Rightarrow> world \<Rightarrow> SessionManager \<times> world" where
  "destroy sm w =
     (case session sm of
        Some h \<Rightarrow> (sm\<lparr>session := None, quotaTracker := None\<rparr>, emit (Destroyed h) w)
      | None \<Rightarrow> (sm, w))"

text \<open>\<^verbatim>\<open>create\<close>: any failure of the native creation is wrapped in a SessionError.\<close>

definition create :: "SessionManager \<Rightarrow> world \<Rightarrow> (error + unit) \<times> SessionManager \<times> world" where
  "create sm w =
     (let n = sessions w; w' = w\<lparr>sessions := Suc n\<rparr> in
      case creation w n of
        Some e \<Rightarrow> (Inl (SessionError ''Failed to create session'' (Some e)), sm, w')
      | None \<Rightarrow> (Inr (), sm\<lparr>session := Some n, quotaTracker := Some n\<rparr>, w'))"

text \<open>
  \<^verbatim>\<open>prompt\<close>: without a native session it throws at once; otherwise an exhausted quota or
  a rejection of the native call (both are the oracle's \<open>Inl\<close>) is wrapped in a SessionError.
\<close>

definition prompt :: "SessionManager \<Rightarrow> string \<Rightarrow> world \<Rightarrow> (error + string) \<times> world" where
  "prompt sm input w =
     (case session sm of
        None \<Rightarrow> (Inl (SessionError ''No active session. Call create() first.'' None), w)
      | Some h \<Rightarrow>
          (let n = calls w; w' = emit (Prompted input) (w\<lparr>calls := Suc n\<rparr>) in
           case native w n of
             Inl e \<Rightarrow> (Inl (SessionError ''Failed to prompt session'' (Some e)), w')
           | Inr t \<Rightarrow> (Inr t, w')))"

section \<open>Function calling (function-registry.ts, function-executor.ts)\<close>

datatype FunctionParameter = FunctionParameter
  (ptype: string)
  (pdescription: "string option")
  (penum: "string list option")
  (pitems: "FunctionParameter option")
  (properties: "(string \<times> FunctionParameter) list option")
  (required: "string list option")

text \<open>
  A handler takes the argument bag and resolves with a value or throws; what the executor
  keeps of a throw is its message (\<open>Inl\<close>).
\<close>

record FunctionDefinition =
  name :: string
  description :: string
  parameters :: FunctionParameter
  handler :: "json option \<Rightarrow> string + json option"

text \<open>The registry is a \<^verbatim>\<open>Map\<close> from names to definitions, in insertion order.\<close>

type_synonym FunctionRegistry = "(string \<times> FunctionDefinition) list"

definition register :: "FunctionDefinition \<Rightarrow> FunctionRegistry \<Rightarrow> world \<Rightarrow> FunctionRegistry \<times> world" where
  "register d registry w =
     (AList.update (name d) d registry,
      if name d \<in> set (map fst registry)
      then emit (Warned (''Function '' @ name d @ '' already registered, overwriting'')) w
      else w)"

fun registerMultiple :: "FunctionDefinition list \<Rightarrow> FunctionRegistry \<Rightarrow> world \<Rightarrow> FunctionRegistry \<times> world" where
  "registerMultiple [] registry w = (registry, w)"
| "registerMultiple (d # ds) registry w =
     (case register d registry w of (registry', w') \<Rightarrow> registerMultiple ds registry' w')"

text \<open>\<^verbatim>\<open>registry.get(name)\<close>: only a string can be a key of the map.\<close>

definition get :: "FunctionRegistry \<Rightarrow> json option \<Rightarrow> FunctionDefinition option" where
  "get registry nm = (case nm of Some (JString n) \<Rightarrow> map_of registry n | _ \<Rightarrow> None)"

record ToolResult =
  success :: bool
  result :: "json option"
  error :: "string option"

definition failing :: "string \<Rightarrow> ToolResult" where
  "failing m = \<lparr>success = False, result = None, error = Some m\<rparr>"

text \<open>
  Reading one of the properties \<^verbatim>\<open>functionCall\<close>, \<^verbatim>\<open>reasoning\<close>, \<^verbatim>\<open>name\<close>, \<^verbatim>\<open>arguments\<close> of
  a value that is not \<^verbatim>\<open>null\<close>: no prototype of a JSON value has one of these names, so only
  an object's own property is found.
\<close>

definition property :: "json \<Rightarrow> string \<Rightarrow> json option" where
  "property v k = (case v of JObject kvs \<Rightarrow> map_of kvs k | _ \<Rightarrow> None)"

definition js_in :: "platform \<Rightarrow> string \<Rightarrow> json option \<Rightarrow> string + bool" where
  "js_in pf k v =
     (case v of
        Some (JObject kvs) \<Rightarrow> Inr (k \<in> set (map fst kvs) \<or> inherited pf k)
      | _ \<Rightarrow> exotic_in pf k v)"

definition Object_keys :: "platform \<Rightarrow> json option \<Rightarrow> string + string list" where
  "Object_keys pf v =
     (case v of Some (JObject kvs) \<Rightarrow> Inr (map fst kvs) | _ \<Rightarrow> exotic_keys pf v)"

text \<open>
  The string conversion that a template string or \<^verbatim>\<open>String()\<close> applies to a value. It
  cannot throw for \<^verbatim>\<open>undefined\<close>, \<^verbatim>\<open>null\<close>, a boolean, a number or a string; for an array
  or an object it runs the value's own conversion, which may throw.
\<close>

definition to_String :: "platform \<Rightarrow> json option \<Rightarrow> error + string" where
  "to_String pf v =
     (case v of
        None \<Rightarrow> Inr ''undefined''
      | Some JNull \<Rightarrow> Inr ''null''
      | Some (JBool b) \<Rightarrow> Inr (if b then ''true'' else ''false'')
      | Some (JNumber q) \<Rightarrow> Inr (Number_toString pf q)
      | Some (JString s) \<Rightarrow> Inr s
      | Some (JArray vs) \<Rightarrow>
          (case String_of pf (JArray vs) of Inl m \<Rightarrow> Inl (TypeError m) | Inr s \<Rightarrow> Inr s)
      | Some (JObject kvs) \<Rightarrow>
          (case String_of pf (JObject kvs) of Inl m \<Rightarrow> Inl (TypeError m) | Inr s \<Rightarrow> Inr s))"

text \<open>The loop over \<^verbatim>\<open>required\<close>: \<open>Inl\<close> when \<^verbatim>\<open>in\<close> throws, else the validation error if any.\<close>

fun check_required :: "platform \<Rightarrow> json option \<Rightarrow> string list \<Rightarrow> string + string option" where
  "check_required pf args [] = Inr None"
| "check_required pf args (field # rest) =
     (case js_in pf field args of
        Inl m \<Rightarrow> Inl m
      | Inr b \<Rightarrow>
          if \<not> b then Inr (Some (''Missing required parameter: '' @ field))
          else check_required pf args rest)"

text \<open>The loop over the keys of the arguments, which only warns.\<close>

fun warn_unexpected :: "platform \<Rightarrow> (string \<times> FunctionParameter) list \<Rightarrow> string list \<Rightarrow> world \<Rightarrow> world" where
  "warn_unexpected pf props [] w = w"
| "warn_unexpected pf props (key # rest) w =
     warn_unexpected pf props rest
       (if \<not> (key \<in> set (map fst props) \<or> inherited pf key)
        then emit (Warned (''Unexpected parameter: '' @ key)) w else w)"

definition validateArguments ::
  "platform \<Rightarrow> json option \<Rightarrow> FunctionParameter \<Rightarrow> world \<Rightarrow> (string + string option) \<times> world" where
  "validateArguments pf args ps w =
     (if ptype ps \<noteq> ''object'' then (Inr (Some ''Parameters must be an object''), w)
      else
        case properties ps of
          None \<Rightarrow> (Inr None, w)
        | Some props \<Rightarrow>
            (case check_required pf args (case required ps of None \<Rightarrow> [] | Some r \<Rightarrow> r) of
               Inl m \<Rightarrow> (Inl m, w)
             | Inr (Some e) \<Rightarrow> (Inr (Some e), w)
             | Inr None \<Rightarrow>
                 (case Object_keys pf args of
                    Inl m \<Rightarrow> (Inl m, w)
                  | Inr ks \<Rightarrow> (Inr None, warn_unexpected pf props ks w))))"

text \<open>
  \<^verbatim>\<open>executeFunctionCall\<close>. The call is whatever truthy value the parser found under
  \<^verbatim>\<open>functionCall\<close>. The message for a name that is not registered is built outside the
  \<^verbatim>\<open>try\<close>: when the string conversion of the name throws, the call itself throws (\<open>Inl\<close>).
  A throw inside the \<^verbatim>\<open>try\<close> (from the validation or from the handler) becomes a failing
  result with the error's message. Every validation error is a non-empty string, hence
  truthy. An invocation of the handler is recorded in the trace.
\<close>

definition executeFunctionCall ::
  "platform \<Rightarrow> json \<Rightarrow> FunctionRegistry \<Rightarrow> world \<Rightarrow> (error + ToolResult) \<times> world" where
  "executeFunctionCall pf call registry w =
     (let nm = property call ''name''; args = property call ''arguments'' in
      case get registry nm of
        None \<Rightarrow>
          (case to_String pf nm of
             Inl e \<Rightarrow> (Inl e, w)
           | Inr s \<Rightarrow>
               (Inr (failing (''Function '' @ dq @ s @ dq @ '' not found in registry'')), w))
      | Some d \<Rightarrow>
          (case validateArguments pf args (parameters d) w of
             (Inl m, w1) \<Rightarrow> (Inr (failing m), w1)
           | (Inr (Some validationError), w1) \<Rightarrow> (Inr (failing validationError), w1)
           | (Inr None, w1) \<Rightarrow>
               (let w2 = emit (Invoked (name d) args) w1 in
                case handler d args of
                  Inl m \<Rightarrow> (Inr (failing m), w2)
                | Inr r \<Rightarrow> (Inr \<lparr>success = True, result = r, error = None\<rparr>, w2))))"

text \<open>\<^verbatim>\<open>executeFunctionCalls\<close>: the calls in order; a call that throws ends the loop.\<close>

fun executeFunctionCalls ::
  "platform \<Rightarrow> json list \<Rightarrow> FunctionRegistry \<Rightarrow> world \<Rightarrow> (error + ToolResult list) \<times> world" where
  "executeFunctionCalls pf [] registry w = (Inr [], w)"
| "executeFunctionCalls pf (call # rest) registry w =
     (case executeFunctionCall pf call registry w of
        (Inl e, w1) \<Rightarrow> (Inl e, w1)
      | (Inr r, w1) \<Rightarrow>
          (case executeFunctionCalls pf rest registry w1 of
             (Inl e, w2) \<Rightarrow> (Inl e, w2)
           | (Inr rs, w2) \<Rightarrow> (Inr (r # rs), w2)))"

section \<open>A reference JSON parser\<close>

text \<open>
  A reader for JSON texts, used as the \<open>JSON_parse\<close> of the sample platform below. It
  follows the JSON grammar. Where the engine rounds a numeral to a double it keeps the
  exact decimal value, it refuses escapes of characters beyond 8 bits, and it keeps the
  members of an object in the order of the text.
\<close>

definition is_json_ws :: "char \<Rightarrow> bool" where
  "is_json_ws c = (c = CHR 0x20 \<or> c = CHR 0x09 \<or> c = CHR 0x0A \<or> c = CHR 0x0D)"

definition is_digit :: "char \<Rightarrow> bool" where
  "is_digit c = (48 \<le> (of_char c :: nat) \<and> (of_char c :: nat) \<le> 57)"

definition digits_value :: "string \<Rightarrow> nat" where
  "digits_value ds = foldl (\<lambda>acc c. 10 * acc + ((of_char c :: nat) - 48)) 0 ds"

definition hex_value :: "char \<Rightarrow> nat option" where
  "hex_value c =
     (let n = (of_char c :: nat) in
      if 48 \<le> n \<and> n \<le> 57 then Some (n - 48)
      else if 65 \<le> n \<and> n \<le> 70 then Some (n - 55)
      else if 97 \<le> n \<and> n \<le> 102 then Some (n - 87)
      else None)"

definition unescape :: "char \<Rightarrow> char option" where
  "unescape e =
     (if e = CHR 0x22 then Some (CHR 0x22)
      else if e = CHR 0x5C then Some (CHR 0x5C)
      else if e = CHR ''/'' then Some (CHR ''/'')
      else if e = CHR ''b'' then Some (CHR 0x08)
      else if e = CHR ''f'' then Some (CHR 0x0C)
      else if e = CHR ''n'' then Some (CHR 0x0A)
      else if e = CHR ''r'' then Some (CHR 0x0D)
      else if e = CHR ''t'' then Some (CHR 0x09)
      else None)"

definition unicode_escape :: "string \<Rightarrow> char option" where
  "unicode_escape hs =
     (case map hex_value hs of
        [Some a, Some b, Some c, Some d] \<Rightarrow>
          (if a = 0 \<and> b = 0 then Some (char_of (16 * c + d)) else None)
      | _ \<Rightarrow> None)"

text \<open>The characters of a string literal after its opening quote, and what follows it.\<close>

fun parse_chars :: "string \<Rightarrow> (string \<times> string) option" where
  "parse_chars [] = None"
| "parse_chars (c # cs) =
     (if c = CHR 0x22 then Some ([], cs)
      else if c = CHR 0x5C then
        (case cs of
           [] \<Rightarrow> None
         | e # es \<Rightarrow>
             if e = CHR ''u'' then
               (case unicode_escape (take 4 es) of
                  None \<Rightarrow> None
                | Some x \<Rightarrow>
                    (case parse_chars (drop 4 es) of
                       None \<Rightarrow> None
                     | Some (t, r) \<Rightarrow> Some (x # t, r)))
             else
               (case unescape e of
                  None \<Rightarrow> None
                | Some x \<Rightarrow>
                    (case parse_chars es of
                       None \<Rightarrow> None
                     | Some (t, r) \<Rightarrow> Some (x # t, r))))
      else if (of_char c :: nat) < 32 then None
      else
        (case parse_chars cs of
           None \<Rightarrow> None
         | Some (t, r) \<Rightarrow> Some (c # t, r)))"

text \<open>A numeral: sign, integer part without a leading zero, fraction, exponent.\<close>

definition parse_number :: "string \<Rightarrow> (rat \<times> string) option" where
  "parse_number s =
     (let neg = (take 1 s = ''-'');
          s1 = (if neg then drop 1 s else s);
          ip = takeWhile is_digit s1;
          s2 = dropWhile is_digit s1;
          has_frac = (take 1 s2 = ''.'');
          fp = (if has_frac then takeWhile is_digit (drop 1 s2) else []);
          s3 = (if has_frac then dropWhile is_digit (drop 1 s2) else s2);
          has_exp = (take 1 s3 = ''e'' \<or> take 1 s3 = ''E'');
          s4 = (if has_exp then drop 1 s3 else s3);
          eneg = (has_exp \<and> take 1 s4 = ''-'');
          s5 = (if has_exp \<and> (take 1 s4 = ''-'' \<or> take 1 s4 = ''+'') then drop 1 s4 else s4);
          ep = (if has_exp then takeWhile is_digit s5 else []);
          s6 = (if has_exp then dropWhile is_digit s5 else s3);
          mant = (of_nat (digits_value (ip @ fp)) :: rat) / 10 ^ length fp;
          magn = (if eneg then mant / 10 ^ digits_value ep else mant * 10 ^ digits_value ep)
      in if ip = [] \<or> (length ip > 1 \<and> take 1 ip = ''0'') \<or> (has_frac \<and> fp = [])
            \<or> (has_exp \<and> ep = [])
         then None
         else Some (if neg then - magn else magn, s6))"

definition starts_with :: "'a list \<Rightarrow> 'a list \<Rightarrow> bool" where
  "starts_with s p = (take (length p) s = p)"

text \<open>
  A later member of the same name replaces the value of an earlier one, which keeps
  its place.
\<close>

definition add_member :: "string \<Rightarrow> json \<Rightarrow> (string \<times> json) list \<Rightarrow> (string \<times> json) list" where
  "add_member k v kvs =
     (k, case map_of kvs k of None \<Rightarrow> v | Some v' \<Rightarrow> v') # filter (\<lambda>kv. fst kv \<noteq> k) kvs"

text \<open>
  The recursive descent. The first argument bounds the depth of the calls; twice the
  length of the text is enough, since a call that nests another has read a character.
\<close>

fun parse_value :: "nat \<Rightarrow> string \<Rightarrow> (json \<times> string) option"
  and parse_elements :: "nat \<Rightarrow> string \<Rightarrow> (json list \<times> string) option"
  and parse_members :: "nat \<Rightarrow> string \<Rightarrow> ((string \<times> json) list \<times> string) option"
where
  "parse_value 0 s = None"
| "parse_value (Suc n) s =
     (case dropWhile is_json_ws s of
        [] \<Rightarrow> None
      | c # cs \<Rightarrow>
          if c = CHR ''{'' then
            (if take 1 (dropWhile is_json_ws cs) = ''}''
             then Some (JObject [], drop 1 (dropWhile is_json_ws cs))
             else (case parse_members n cs of
                     None \<Rightarrow> None
                   | Some (kvs, r) \<Rightarrow> Some (JObject kvs, r)))
          else if c = CHR ''['' then
            (if take 1 (dropWhile is_json_ws cs) = '']''
             then Some (JArray [], drop 1 (dropWhile is_json_ws cs))
             else (case parse_elements n cs of
                     None \<Rightarrow> None
                   | Some (vs, r) \<Rightarrow> Some (JArray vs, r)))
          else if c = CHR 0x22 then
            (case parse_chars cs of
               None \<Rightarrow> None
             | Some (t, r) \<Rightarrow> Some (JString t, r))
          else if starts_with (c # cs) ''true'' then Some (JBool True, drop 4 (c # cs))
          else if starts_with (c # cs) ''false'' then Some (JBool False, drop 5 (c # cs))
          else if starts_with (c # cs) ''null'' then Some (JNull, drop 4 (c # cs))
          else (case parse_number (c # cs) of
                  None \<Rightarrow> None
                | Some (q, r) \<Rightarrow> Some (JNumber q, r)))"
| "parse_elements 0 s = None"
| "parse_elements (Suc n) s =
     (case parse_value n s of
        None \<Rightarrow> None
      | Some (v, r) \<Rightarrow>
          (case dropWhile is_json_ws r of
             [] \<Rightarrow> None
           | c # cs \<Rightarrow>
               if c = CHR '','' then
                 (case parse_elements n cs of
                    None \<Rightarrow> None
                  | Some (vs, r') \<Rightarrow> Some (v # vs, r'))
               else if c = CHR '']'' then Some ([v], cs)
               else None))"
| "parse_members 0 s = None"
| "parse_members (Suc n) s =
     (case dropWhile is_json_ws s of
        [] \<Rightarrow> None
      | c # cs \<Rightarrow>
          if c \<noteq> CHR 0x22 then None
          else
            (case parse_chars cs of
               None \<Rightarrow> None
             | Some (k, r) \<Rightarrow>
                 if take 1 (dropWhile is_json_ws r) \<noteq> '':'' then None
                 else
                   (case parse_value n (drop 1 (dropWhile is_json_ws r)) of
                      None \<Rightarrow> None
                    | Some (v, r') \<Rightarrow>
                        (case dropWhile is_json_ws r' of
                           [] \<Rightarrow> None
                         | d # ds \<Rightarrow>
                             if d = CHR '','' then
                               (case parse_members n ds of
                                  None \<Rightarrow> None
                                | Some (kvs, r'') \<Rightarrow> Some (add_member k v kvs, r''))
                             else if d = CHR ''}'' then Some ([(k, v)], ds)
                             else None))))"

definition reference_parse :: "string \<Rightarrow> json option" where
  "reference_parse s =
     (case parse_value (2 * length s + 2) s of
        None \<Rightarrow> None
      | Some (v, r) \<Rightarrow> if dropWhile is_json_ws r = [] then Some v else None)"

text \<open>
  The string conversion of the values that \<^verbatim>\<open>JSON.parse\<close> produces. An integer is written
  in decimal digits (another number is a stand-in). An array joins the conversions of its elements with
  commas, \<^verbatim>\<open>null\<close> giving the empty string. An object has the conversion of
  \<^verbatim>\<open>Object.prototype\<close> unless it has a property \<^verbatim>\<open>toString\<close> of its own: that property is
  not callable, the \<^verbatim>\<open>valueOf\<close> that is tried next is not callable or returns the object, and
  the conversion throws.
\<close>

function decimal :: "nat \<Rightarrow> string" where
  "decimal n =
     (if n < 10 then [char_of (48 + n)] else decimal (n div 10) @ [char_of (48 + n mod 10)])"
  by pat_completeness auto
termination
  by (relation "measure id") auto

declare decimal.simps [simp del]

definition reference_Number :: "rat \<Rightarrow> string" where
  "reference_Number q =
     (case quotient_of q of
        (a, b) \<Rightarrow>
          if b = 1 then (if a < 0 then ''-'' else []) @ decimal (nat \<bar>a\<bar>) else ''[number]'')"

fun comma_join :: "(string + string) list \<Rightarrow> string + string" where
  "comma_join [] = Inr []"
| "comma_join [x] = x"
| "comma_join (x # y # ys) =
     (case x of
        Inl m \<Rightarrow> Inl m
      | Inr s \<Rightarrow> (case comma_join (y # ys) of Inl m \<Rightarrow> Inl m | Inr r \<Rightarrow> Inr (s @ '','' @ r)))"

fun reference_String :: "json \<Rightarrow> string + string" where
  "reference_String JNull = Inr ''null''"
| "reference_String (JBool b) = Inr (if b then ''true'' else ''false'')"
| "reference_String (JNumber q) = Inr (reference_Number q)"
| "reference_String (JString s) = Inr s"
| "reference_String (JArray vs) =
     comma_join (map (\<lambda>v. if v = JNull then Inr [] else reference_String v) vs)"
| "reference_String (JObject kvs) =
     (if ''toString'' \<in> set (map fst kvs) then Inl ''Cannot convert object to primitive value''
      else Inr ''[object Object]'')"

text \<open>
  Whether a value conforms to a Zod schema: a stand-in for Zod's \<^verbatim>\<open>parse\<close>, which the
  repository takes from the library.
\<close>

fun conforms :: "ZodType \<Rightarrow> json \<Rightarrow> bool" where
  "conforms ZodString v = (case v of JString s \<Rightarrow> True | _ \<Rightarrow> False)"
| "conforms ZodNumber v = (case v of JNumber q \<Rightarrow> True | _ \<Rightarrow> False)"
| "conforms ZodBoolean v = (case v of JBool b \<Rightarrow> True | _ \<Rightarrow> False)"
| "conforms (ZodArray t) v = (case v of JArray vs \<Rightarrow> list_all (conforms t) vs | _ \<Rightarrow> False)"
| "conforms (ZodObject shape) v =
     (case v of
        JObject kvs \<Rightarrow>
          list_all (\<lambda>kt. case map_of kvs (fst kt) of
                            None \<Rightarrow> typeName (snd kt) = ''ZodOptional''
                          | Some x \<Rightarrow> conforms (snd kt) x) shape
      | _ \<Rightarrow> False)"
| "conforms (ZodEnum vs) v = (case v of JString s \<Rightarrow> s \<in> set vs | _ \<Rightarrow> False)"
| "conforms (ZodOptional t) v = conforms t v"
| "conforms (ZodNullable t) v = (v = JNull \<or> conforms t v)"
| "conforms (ZodUnion t ts) v = (conforms t v \<or> list_ex (\<lambda>u. conforms u v) ts)"
| "conforms (ZodUnsupported n) v = True"

text \<open>
  The sample platform, for concrete runs. Its \<open>JSON_parse\<close> is the reference parser, its
  string conversions are the ones above and its \<open>inherited\<close> names are the properties of
  \<^verbatim>\<open>Object.prototype\<close>. The texts that an engine produces when it formats a value as JSON
  or words an error message are fixed stand-ins here; no return value of the code depends
  on them.
\<close>

definition Object_prototype_names :: "string list" where
  "Object_prototype_names =
     [''constructor'', ''__defineGetter__'', ''__defineSetter__'', ''hasOwnProperty'',
      ''__lookupGetter__'', ''__lookupSetter__'', ''isPrototypeOf'', ''propertyIsEnumerable'',
      ''toString'', ''valueOf'', ''__proto__'', ''toLocaleString'']"

definition sample_platform :: platform where
  "sample_platform =
     \<lparr>JSON_parse = (\<lambda>s. case reference_parse s of
                            None \<Rightarrow> Inl ''Unexpected token''
                          | Some v \<Rightarrow> Inr v),
      JSON_stringify = (\<lambda>v. case v of None \<Rightarrow> ''undefined'' | Some j \<Rightarrow> ''[json]''),
      Number_toString = reference_Number,
      String_of = reference_String,
      stringify_schema = (\<lambda>d. ''[schema]''),
      zod_parse = (\<lambda>z v. if conforms z v then Inr v else Inl ''Invalid input''),
      inherited = (\<lambda>k. k \<in> set Object_prototype_names),
      exotic_in = (\<lambda>k v. Inl ''Cannot use in operator''),
      exotic_keys = (\<lambda>v. Inl ''Cannot convert to object'')\<rparr>"

section \<open>The function-call protocol (function-prompt-builder.ts)\<close>

text \<open>JavaScript's truthiness, on the values that \<^verbatim>\<open>JSON.parse\<close> can produce.\<close>

fun truthy :: "json option \<Rightarrow> bool" where
  "truthy None = False"
| "truthy (Some JNull) = False"
| "truthy (Some (JBool b)) = b"
| "truthy (Some (JNumber q)) = (q \<noteq> 0)"
| "truthy (Some (JString t)) = (t \<noteq> [])"
| "truthy (Some (JArray vs)) = True"
| "truthy (Some (JObject kvs)) = True"

text \<open>The text from its beginning through the last occurrence of a character.\<close>

definition through_last :: "char \<Rightarrow> string \<Rightarrow> string" where
  "through_last c s = rev (dropWhile (\<lambda>x. x \<noteq> c) (rev s))"

text \<open>
  \<^verbatim>\<open>response.match(/\{[\s\S]*\}/)\<close>: the match starts at the first brace that has a closing
  brace somewhere after it and, the star being greedy, runs through the last closing brace.
\<close>

fun match_object :: "string \<Rightarrow> string option" where
  "match_object [] = None"
| "match_object (c # cs) =
     (if c = CHR ''{'' \<and> CHR ''}'' \<in> set cs then Some (through_last (CHR ''}'') (c # cs))
      else match_object cs)"

record ParsedResponse =
  functionCall :: "json option"
  reasoning :: "json option"
  regularResponse :: "string option"

definition regular :: "string \<Rightarrow> ParsedResponse" where
  "regular response = \<lparr>functionCall = None, reasoning = None, regularResponse = Some response\<rparr>"

text \<open>The body of the \<^verbatim>\<open>try\<close> block of \<^verbatim>\<open>parseFunctionCall\<close>, with what it throws.\<close>

definition parseFunctionCall_try :: "platform \<Rightarrow> string \<Rightarrow> error + ParsedResponse" where
  "parseFunctionCall_try pf response =
     (case match_object response of
        None \<Rightarrow> Inr (regular response)
      | Some jsonMatch \<Rightarrow>
          (case JSON_parse pf jsonMatch of
             Inl m \<Rightarrow> Inl (SyntaxError m)
           | Inr parsed \<Rightarrow>
               if parsed = JNull then Inl (TypeError ''Cannot read properties of null'')
               else if truthy (property parsed ''functionCall'')
               then Inr \<lparr>functionCall = property parsed ''functionCall'',
                        reasoning = property parsed ''reasoning'',
                        regularResponse = None\<rparr>
               else Inr (regular response)))"

text \<open>\<^verbatim>\<open>parseFunctionCall\<close>: the \<^verbatim>\<open>catch\<close> turns every throw into a regular response.\<close>

definition parseFunctionCall :: "platform \<Rightarrow> string \<Rightarrow> error + ParsedResponse" where
  "parseFunctionCall pf response =
     (case parseFunctionCall_try pf response of
        Inl e \<Rightarrow> Inr (regular response)
      | Inr r \<Rightarrow> Inr r)"

text \<open>\<^verbatim>\<open>a || b\<close>.\<close>

definition js_or :: "json option \<Rightarrow> json option \<Rightarrow> json option" where
  "js_or a b = (if truthy a then a else b)"

text \<open>
  \<^verbatim>\<open>formatFunctionResult\<close>: the name, and the result of a failed call, go through the string
  conversion of the template string, which may throw.
\<close>

definition formatFunctionResult ::
  "platform \<Rightarrow> json option \<Rightarrow> json option \<Rightarrow> bool \<Rightarrow> error + string" where
  "formatFunctionResult pf functionName res ok =
     (case to_String pf functionName of
        Inl e \<Rightarrow> Inl e
      | Inr n \<Rightarrow>
          if ok
          then Inr (''Function '' @ dq @ n @ dq
                    @ '' executed successfully. Result: '' @ JSON_stringify pf res)
          else
            (case to_String pf res of
               Inl e \<Rightarrow> Inl e
             | Inr r \<Rightarrow> Inr (''Function '' @ dq @ n @ dq @ '' failed with error: '' @ r)))"

text \<open>
  Whether some contiguous part of a text is a JSON object for the engine's parser.
\<close>

definition contains_json_object :: "platform \<Rightarrow> string \<Rightarrow> bool" where
  "contains_json_object pf s =
     list_ex (\<lambda>t. case JSON_parse pf t of Inr (JObject kvs) \<Rightarrow> True | _ \<Rightarrow> False) (sublists s)"

section \<open>Structured output (schema-generator.ts, structured-prompt.ts)\<close>

definition createSchemaPrompt :: "platform \<Rightarrow> SchemaDefinition \<Rightarrow> string" where
  "createSchemaPrompt pf schema =
     ''You must respond with valid JSON matching this exact schema:'' @ nl
     @ stringify_schema pf schema @ nl @ nl
     @ ''Rules:'' @ nl
     @ ''- Respond ONLY with the JSON object, no additional text'' @ nl
     @ ''- Ensure all required fields are present'' @ nl
     @ ''- Follow the exact structure and types specified'' @ nl
     @ ''- Do not include any markdown formatting or code blocks''"

text \<open>
  White space for \<^verbatim>\<open>trim\<close> and for \<^verbatim>\<open>\s\<close>, among 8-bit characters: tab, line feed,
  vertical tab, form feed, carriage return, space and no-break space.
\<close>

definition is_js_space :: "char \<Rightarrow> bool" where
  "is_js_space c =
     (c = CHR 0x09 \<or> c = CHR 0x0A \<or> c = CHR 0x0B \<or> c = CHR 0x0C \<or> c = CHR 0x0D
      \<or> c = CHR 0x20 \<or> c = CHR 0xA0)"

definition trim :: "string \<Rightarrow> string" where
  "trim s = rev (dropWhile is_js_space (rev (dropWhile is_js_space s)))"

text \<open>
  \<^verbatim>\<open>.replace(/^```json?\s*/i, '')\<close>: at the very beginning, three backquotes, the letters
  \<^verbatim>\<open>jso\<close> in either case, an \<^verbatim>\<open>n\<close> if there is one, and the white space after them.
\<close>

definition strip_fence_open :: "string \<Rightarrow> string" where
  "strip_fence_open s =
     (if take 3 s = [CHR 0x60, CHR 0x60, CHR 0x60]
         \<and> take 1 (drop 3 s) \<in> {''j'', ''J''}
         \<and> take 1 (drop 4 s) \<in> {''s'', ''S''}
         \<and> take 1 (drop 5 s) \<in> {''o'', ''O''}
      then dropWhile is_js_space
             (if take 1 (drop 6 s) \<in> {''n'', ''N''} then drop 7 s else drop 6 s)
      else s)"

text \<open>
  \<^verbatim>\<open>.replace(/```\s*$/, '')\<close>: the first place from which three backquotes and then only
  white space reach the end of the text; the text is cut there.
\<close>

fun strip_fence_close :: "string \<Rightarrow> string" where
  "strip_fence_close [] = []"
| "strip_fence_close (c # cs) =
     (if take 3 (c # cs) = [CHR 0x60, CHR 0x60, CHR 0x60] \<and> list_all is_js_space (drop 2 cs)
      then []
      else c # strip_fence_close cs)"

text \<open>
  \<^verbatim>\<open>cleaned.match(/(\{[\s\S]*\}|\[[\s\S]*\])/)\<close>: at the first place where a brace has a
  closing brace after it, or a bracket a closing bracket, the match runs through the last
  such closing character.
\<close>

fun match_json :: "string \<Rightarrow> string option" where
  "match_json [] = None"
| "match_json (c # cs) =
     (if c = CHR ''{'' \<and> CHR ''}'' \<in> set cs then Some (through_last (CHR ''}'') (c # cs))
      else if c = CHR ''['' \<and> CHR '']'' \<in> set cs then Some (through_last (CHR '']'') (c # cs))
      else match_json cs)"

definition parseJSONResponse :: "platform \<Rightarrow> string \<Rightarrow> error + json" where
  "parseJSONResponse pf response =
     (let cleaned = strip_fence_close (strip_fence_open (trim response));
          cleaned = (case match_json cleaned of Some jsonMatch \<Rightarrow> jsonMatch | None \<Rightarrow> cleaned)
      in case JSON_parse pf cleaned of
           Inr v \<Rightarrow> Inr v
         | Inl m \<Rightarrow>
             Inl (StructuredOutputError
                    (''Failed to parse JSON response: '' @ m @ ''. Response: '' @ take 200 cleaned)
                    None))"

text \<open>
  The schema option is a Zod schema (it has a \<^verbatim>\<open>parse\<close> method) or a plain schema
  definition. The options \<^verbatim>\<open>systemPrompt\<close> and \<^verbatim>\<open>signal\<close> have no effect on what the
  function does with the session's answers and are left out.
\<close>

datatype schema_option = Zod ZodType | Plain SchemaDefinition

record StructuredPromptOptions =
  schema :: schema_option
  maxRetries :: "int option"

text \<open>What one attempt makes of the model's response: parse, then validate with Zod if any.\<close>

definition parse_and_validate :: "platform \<Rightarrow> schema_option \<Rightarrow> string \<Rightarrow> error + json" where
  "parse_and_validate pf sch response =
     (case parseJSONResponse pf response of
        Inl e \<Rightarrow> Inl e
      | Inr parsed \<Rightarrow>
          (case sch of
             Zod zodSchema \<Rightarrow>
               (case zod_parse pf zodSchema parsed of
                  Inl m \<Rightarrow> Inl (ZodError m)
                | Inr v \<Rightarrow> Inr v)
           | Plain d \<Rightarrow> Inr parsed))"

definition errorFeedback :: "error \<Rightarrow> string" where
  "errorFeedback lastError =
     ''The previous response was invalid. Error: '' @ message lastError
     @ ''. Please try again with valid JSON.''"

text \<open>
  The \<^verbatim>\<open>for\<close> loop of \<^verbatim>\<open>promptWithStructure\<close>, from a given value of \<^verbatim>\<open>attempt\<close>. An error
  thrown by the feedback prompt, which is sent from inside the \<^verbatim>\<open>catch\<close> block, leaves
  the function.
\<close>

function promptWithStructure_loop ::
  "platform \<Rightarrow> SessionManager \<Rightarrow> string \<Rightarrow> schema_option \<Rightarrow> int \<Rightarrow> int \<Rightarrow> error option \<Rightarrow> world
   \<Rightarrow> (error + json) \<times> world" where
  "promptWithStructure_loop pf sm fullPrompt sch maxR attempt lastError w =
     (if attempt < maxR then
        (case prompt sm fullPrompt w of
           (r, w1) \<Rightarrow>
             (case (case r of Inl e \<Rightarrow> Inl e | Inr response \<Rightarrow> parse_and_validate pf sch response) of
                Inr v \<Rightarrow> (Inr v, w1)
              | Inl e \<Rightarrow>
                  if attempt < maxR - 1 then
                    (case prompt sm (errorFeedback e) w1 of
                       (Inl e', w2) \<Rightarrow> (Inl e', w2)
                     | (Inr ignored, w2) \<Rightarrow>
                         promptWithStructure_loop pf sm fullPrompt sch maxR (attempt + 1) (Some e) w2)
                  else promptWithStructure_loop pf sm fullPrompt sch maxR (attempt + 1) (Some e) w1))
      else
        (Inl (StructuredOutputError
                (''Failed to get valid structured output after ''
                 @ Number_toString pf (of_int maxR) @ '' attempts'')
                lastError), w))"
  by pat_completeness auto
termination
  by (relation "measure (\<lambda>(pf, sm, fullPrompt, sch, maxR, attempt, lastError, w). nat (maxR - attempt))")
     auto

declare promptWithStructure_loop.simps [simp del]

definition promptWithStructure ::
  "platform \<Rightarrow> SessionManager \<Rightarrow> string \<Rightarrow> StructuredPromptOptions \<Rightarrow> world \<Rightarrow> (error + json) \<times> world" where
  "promptWithStructure pf sm p options w =
     (let maxR = (case maxRetries options of None \<Rightarrow> 3 | Some n \<Rightarrow> n);
          jsonSchema = (case schema options of Zod z \<Rightarrow> generateSchema z | Plain d \<Rightarrow> d);
          fullPrompt = createSchemaPrompt pf jsonSchema @ nl @ nl @ ''User Request: '' @ p
      in promptWithStructure_loop pf sm fullPrompt (schema options) maxR 0 None w)"

text \<open>The number of times a given prompt was sent between two states of the world.\<close>

definition times_sent :: "string \<Rightarrow> world \<Rightarrow> world \<Rightarrow> nat" where
  "times_sent p w w' = length (filter (\<lambda>e. e = Prompted p) (drop (length (trace w)) (trace w')))"

section \<open>The basic agent (basic-agent.ts)\<close>

datatype TaskStatus = idle | running | completed | failed | stopped

text \<open>
  A step. Its \<^verbatim>\<open>thought\<close> is the response text of a regular response, or whatever the
  model put under \<^verbatim>\<open>reasoning\<close> beside a function call; its \<^verbatim>\<open>action\<close> is the value found
  under \<^verbatim>\<open>functionCall\<close>.
\<close>

record AgentStep =
  iteration :: nat
  timestamp :: nat
  thought :: "json option"
  action :: "json option"
  observation :: "ToolResult option"

record AgentResult =
  status :: TaskStatus
  steps :: "AgentStep list"
  finalAnswer :: "json option"
  run_error :: "error option"
  iterations :: nat

text \<open>
  The configuration. A callback is a function that returns or throws: \<open>onStep\<close> yields the
  error it throws, if any, and \<open>stopCondition\<close> a boolean or the error it throws.
\<close>

record AgentConfig =
  maxIterations :: int
  "functions" :: "FunctionDefinition list option"
  systemPrompt :: "string option"
  onStep :: "(AgentStep \<Rightarrow> error option) option"
  stopCondition :: "(AgentStep list \<Rightarrow> error + bool) option"

text \<open>The fields of the agent object: \<^verbatim>\<open>session\<close>, \<^verbatim>\<open>registry\<close>, \<^verbatim>\<open>status\<close>, \<^verbatim>\<open>steps\<close>, \<^verbatim>\<open>shouldStop\<close>.\<close>

record BasicAgent =
  agent_session :: "SessionManager option"
  agent_registry :: FunctionRegistry
  agent_status :: TaskStatus
  agent_steps :: "AgentStep list"
  shouldStop :: bool

definition new_BasicAgent :: "'c AgentConfig_scheme \<Rightarrow> world \<Rightarrow> BasicAgent \<times> world" where
  "new_BasicAgent cfg w =
     (case registerMultiple (case functions cfg of None \<Rightarrow> [] | Some fs \<Rightarrow> fs) [] w of
        (reg, w') \<Rightarrow>
          (\<lparr>agent_session = None, agent_registry = reg, agent_status = idle, agent_steps = [],
            shouldStop = False\<rparr>, w'))"

text \<open>\<^verbatim>\<open>toLowerCase\<close> on characters below 256, and \<^verbatim>\<open>includes\<close>.\<close>

definition to_lower :: "char \<Rightarrow> char" where
  "to_lower c =
     (let n = (of_char c :: nat) in
      if (65 \<le> n \<and> n \<le> 90) \<or> (192 \<le> n \<and> n \<le> 222 \<and> n \<noteq> 215) then char_of (n + 32) else c)"

definition toLowerCase :: "string \<Rightarrow> string" where
  "toLowerCase s = map to_lower s"

fun js_includes :: "string \<Rightarrow> string \<Rightarrow> bool" where
  "js_includes [] p = (p = [])"
| "js_includes (c # cs) p = (starts_with (c # cs) p \<or> js_includes cs p)"

definition completionIndicators :: "string list" where
  "completionIndicators =
     [''task is complete'', ''task complete'', ''finished'', ''done'', ''completed'',
      ''final answer'']"

definition isTaskComplete :: "string \<Rightarrow> bool" where
  "isTaskComplete response =
     list_ex (\<lambda>indicator. js_includes (toLowerCase response) indicator) completionIndicators"

text \<open>\<^verbatim>\<open>this.steps.push(step)\<close> followed by the \<^verbatim>\<open>onStep\<close> callback, which may throw.\<close>

definition push_step ::
  "'c AgentConfig_scheme \<Rightarrow> AgentStep \<Rightarrow> 'a BasicAgent_scheme \<Rightarrow> world
   \<Rightarrow> error option \<times> 'a BasicAgent_scheme \<times> world" where
  "push_step cfg step ag w =
     (let ag' = ag\<lparr>agent_steps := agent_steps ag @ [step]\<rparr> in
      case onStep cfg of
        None \<Rightarrow> (None, ag', w)
      | Some f \<Rightarrow> (f step, ag', emit (Stepped (iteration step)) w))"

definition continue_after_call :: string where
  "continue_after_call =
     ''Continue with the task. If the task is complete, respond with your final answer without calling any functions.''"

text \<open>
  The body of the \<^verbatim>\<open>while\<close> loop of \<^verbatim>\<open>run\<close>, for the already incremented \<^verbatim>\<open>iteration\<close>.
  It throws (\<open>Inl\<close>), returns the result of the run from inside the loop (\<open>Inr (Inl r)\<close>) or
  ends with the next prompt (\<open>Inr (Inr p)\<close>). A throw of \<^verbatim>\<open>executeFunctionCall\<close> or of
  \<^verbatim>\<open>formatFunctionResult\<close> leaves the loop before the step is pushed. A \<^verbatim>\<open>stop()\<close> that
  arrives while the prompt is pending sets the flag.
\<close>

definition iterate ::
  "platform \<Rightarrow> 'c AgentConfig_scheme \<Rightarrow> SessionManager \<Rightarrow> nat \<Rightarrow> string \<Rightarrow> 'a BasicAgent_scheme \<Rightarrow> world
   \<Rightarrow> (error + (AgentResult + string)) \<times> 'a BasicAgent_scheme \<times> world" where
  "iterate pf cfg sm iter currentPrompt ag w =
     (let now = clock w (calls w);
          ag1 = ag\<lparr>shouldStop := shouldStop ag \<or> (session sm \<noteq> None \<and> stops w (calls w))\<rparr>
      in
      case prompt sm currentPrompt w of
        (Inl e, w1) \<Rightarrow> (Inl e, ag1, w1)
      | (Inr response, w1) \<Rightarrow>
          (case parseFunctionCall pf response of
             Inl e \<Rightarrow> (Inl e, ag1, w1)
           | Inr parsed \<Rightarrow>
               (case (if truthy (functionCall parsed) then functionCall parsed else None) of
                  Some call \<Rightarrow>
                    (case executeFunctionCall pf call (agent_registry ag1) w1 of
                       (Inl e, w2) \<Rightarrow> (Inl e, ag1, w2)
                     | (Inr res, w2) \<Rightarrow>
                         (let step = \<lparr>iteration = iter, timestamp = now,
                                      thought = reasoning parsed, action = Some call,
                                      observation = Some res\<rparr>
                          in case formatFunctionResult pf (property call ''name'')
                                    (js_or (result res) (map_option JString (error res)))
                                    (success res) of
                               Inl e \<Rightarrow> (Inl e, ag1, w2)
                             | Inr formattedResult \<Rightarrow>
                                 (case push_step cfg step ag1 w2 of
                                    (Some e, ag2, w3) \<Rightarrow> (Inl e, ag2, w3)
                                  | (None, ag2, w3) \<Rightarrow>
                                      (Inr (Inr (formattedResult @ nl @ nl @ continue_after_call)),
                                       ag2, w3))))
                | None \<Rightarrow>
                    (let step = \<lparr>iteration = iter, timestamp = now,
                                 thought = map_option JString (regularResponse parsed),
                                 action = None, observation = None\<rparr>
                     in case (case stopCondition cfg of
                                Some f \<Rightarrow> f (agent_steps ag1)
                              | None \<Rightarrow>
                                  Inr (isTaskComplete
                                         (case regularResponse parsed of
                                            Some t \<Rightarrow> t
                                          | None \<Rightarrow> []))) of
                          Inl e \<Rightarrow> (Inl e, ag1, w1)
                        | Inr finished \<Rightarrow>
                            if finished then
                              (case push_step cfg step (ag1\<lparr>agent_status := completed\<rparr>) w1 of
                                 (Some e, ag2, w2) \<Rightarrow> (Inl e, ag2, w2)
                               | (None, ag2, w2) \<Rightarrow>
                                   (Inr (Inl \<lparr>status = completed, steps = agent_steps ag2,
                                              finalAnswer = map_option JString (regularResponse parsed),
                                              run_error = None, iterations = iter\<rparr>),
                                    ag2, w2))
                            else
                              (case push_step cfg step ag1 w1 of
                                 (Some e, ag2, w2) \<Rightarrow> (Inl e, ag2, w2)
                               | (None, ag2, w2) \<Rightarrow>
                                   (Inr (Inr ''Continue with the task.''), ag2, w2))))))"

text \<open>
  The \<^verbatim>\<open>while\<close> loop with what follows it. \<^verbatim>\<open>iteration\<close> is the number of iterations
  begun so far.
\<close>

function run_loop ::
  "platform \<Rightarrow> 'c AgentConfig_scheme \<Rightarrow> SessionManager \<Rightarrow> nat \<Rightarrow> string \<Rightarrow> 'a BasicAgent_scheme \<Rightarrow> world
   \<Rightarrow> (error + AgentResult) \<times> 'a BasicAgent_scheme \<times> world" where
  "run_loop pf cfg sm iter currentPrompt ag w =
     (if int iter < maxIterations cfg \<and> \<not> shouldStop ag then
        (case iterate pf cfg sm (Suc iter) currentPrompt ag w of
           (Inl e, ag1, w1) \<Rightarrow> (Inl e, ag1, w1)
         | (Inr (Inl res), ag1, w1) \<Rightarrow> (Inr res, ag1, w1)
         | (Inr (Inr nextPrompt), ag1, w1) \<Rightarrow> run_loop pf cfg sm (Suc iter) nextPrompt ag1 w1)
      else
        (let st = (if shouldStop ag then stopped else completed) in
         (Inr \<lparr>status = st, steps = agent_steps ag,
               finalAnswer = (case agent_steps ag of [] \<Rightarrow> None | s # ss \<Rightarrow> thought (last (s # ss))),
               run_error = None, iterations = iter\<rparr>,
          ag\<lparr>agent_status := st\<rparr>, w)))"
  by pat_completeness auto
termination
  by (relation "measure (\<lambda>(pf, cfg, sm, iter, currentPrompt, ag, w). nat (maxIterations cfg - int iter))")
     auto

declare run_loop.simps [simp del]

text \<open>
  \<^verbatim>\<open>run\<close>: reset, create a session, loop; a throw gives the failed result; at the end the
  session manager is destroyed and forgotten. A \<^verbatim>\<open>stop()\<close> that arrives while the session
  is being created sets the flag after the reset.
\<close>

definition run ::
  "platform \<Rightarrow> 'c AgentConfig_scheme \<Rightarrow> string \<Rightarrow> 'a BasicAgent_scheme \<Rightarrow> world
   \<Rightarrow> AgentResult \<times> 'a BasicAgent_scheme \<times> world" where
  "run pf cfg task ag w =
     (case create new_SessionManager w of
        (created, sm, w1) \<Rightarrow>
          (let ag1 = ag\<lparr>agent_status := running, agent_steps := [],
                        shouldStop := stops_creating w (sessions w),
                        agent_session := Some sm\<rparr>
           in
           case (case created of
                   Inl e \<Rightarrow> (Inl e, ag1, w1)
                 | Inr u \<Rightarrow> run_loop pf cfg sm 0 task ag1 w1) of
             (outcome, ag2, w2) \<Rightarrow>
               (case destroy sm w2 of
                  (sm', w3) \<Rightarrow>
                    (case outcome of
                       Inr res \<Rightarrow> (res, ag2\<lparr>agent_session := None\<rparr>, w3)
                     | Inl e \<Rightarrow>
                         (\<lparr>status = failed, steps = agent_steps ag2, finalAnswer = None,
                           run_error = Some e, iterations = length (agent_steps ag2)\<rparr>,
                          ag2\<lparr>agent_status := failed, agent_session := None\<rparr>, w3)))))"

section \<open>The advanced agent (advanced-agent.ts)\<close>

record AgentPlan =
  plan_steps :: "string list"
  dependencies :: "(nat \<times> nat list) list"

record AdvancedAgentConfig = AgentConfig +
  planningPrompt :: "string option"
  reflectionPrompt :: "string option"
  maxReflections :: "int option"
  enablePlanning :: "bool option"

record AdvancedAgent = BasicAgent +
  currentPlan :: "AgentPlan option"
  reflectionCount :: nat

definition new_AdvancedAgent :: "'c AdvancedAgentConfig_scheme \<Rightarrow> world \<Rightarrow> AdvancedAgent \<times> world" where
  "new_AdvancedAgent cfg w =
     (case new_BasicAgent cfg w of
        (b, w') \<Rightarrow> (BasicAgent.extend b \<lparr>currentPlan = None, reflectionCount = 0\<rparr>, w'))"

text \<open>\<^verbatim>\<open>s || d\<close> for an optional string: the empty string is falsy too.\<close>

definition or_default :: "string option \<Rightarrow> string \<Rightarrow> string" where
  "or_default s d = (case s of None \<Rightarrow> d | Some t \<Rightarrow> if t = [] then d else t)"

fun join :: "string \<Rightarrow> string list \<Rightarrow> string" where
  "join sep [] = []"
| "join sep [x] = x"
| "join sep (x # y # ys) = x @ sep @ join sep (y # ys)"

text \<open>
  \<^verbatim>\<open>parsePlan\<close> collects the matches of \<^verbatim>\<open>/(\d+)\.\s*([^\n]+)/g\<close>. After the dot the white
  space is taken greedily and the group is the rest of the line; when only white space
  is left before the end of the text, the regular expression gives white space back until
  the group can start at a character that is not a line feed.
\<close>

definition after_dot :: "string \<Rightarrow> (string \<times> string) option" where
  "after_dot s =
     (let ws = takeWhile is_js_space s; rest = dropWhile is_js_space s in
      if rest \<noteq> []
      then Some (takeWhile (\<lambda>c. c \<noteq> CHR 0x0A) rest, dropWhile (\<lambda>c. c \<noteq> CHR 0x0A) rest)
      else
        (case dropWhile (\<lambda>c. c = CHR 0x0A) (rev ws) of
           [] \<Rightarrow> None
         | c # before \<Rightarrow> Some ([c], takeWhile (\<lambda>c. c = CHR 0x0A) (rev ws))))"

text \<open>A match that starts at the beginning of the text: the second group and what follows.\<close>

definition plan_item_at :: "string \<Rightarrow> (string \<times> string) option" where
  "plan_item_at s =
     (if takeWhile is_digit s \<noteq> [] \<and> take 1 (dropWhile is_digit s) = ''.''
      then after_dot (drop 1 (dropWhile is_digit s))
      else None)"

function plan_items :: "string \<Rightarrow> string list" where
  "plan_items s =
     (case s of
        [] \<Rightarrow> []
      | c # cs \<Rightarrow>
          (case plan_item_at s of
             Some (g, rest) \<Rightarrow> trim g # plan_items rest
           | None \<Rightarrow> plan_items cs))"
  by pat_completeness auto
termination
proof -
  have after: "length r \<le> length s" if "after_dot s = Some (g, r)" for s g r
  proof -
    have b: "length (takeWhile (\<lambda>c. c = CHR 0x0A) (rev (takeWhile is_js_space s))) \<le> length s"
      by (metis length_rev length_takeWhile_le order_trans)
    have c: "length (dropWhile (\<lambda>c. c \<noteq> CHR 0x0A) (dropWhile is_js_space s)) \<le> length s"
      by (meson order_trans length_dropWhile_le)
    show ?thesis
      using that b c by (auto simp: after_dot_def Let_def split: if_splits list.splits)
  qed
  have item: "length r < length s" if "plan_item_at s = Some (g, r)" for s g r
  proof -
    have d: "takeWhile is_digit s \<noteq> []"
      and a: "after_dot (drop 1 (dropWhile is_digit s)) = Some (g, r)"
      using that by (auto simp: plan_item_at_def split: if_splits)
    have "length r \<le> length (drop 1 (dropWhile is_digit s))"
      using after [OF a] .
    also have "\<dots> \<le> length (dropWhile is_digit s)"
      by simp
    also have "\<dots> < length s"
      using d by (metis length_dropWhile_le dropWhile_eq_self_iff takeWhile_eq_Nil_iff
                    le_neq_implies_less length_append takeWhile_dropWhile_id
                    add_cancel_right_left length_0_conv)
    finally show ?thesis .
  qed
  show ?thesis
    by (relation "measure length") (auto dest: item)
qed

declare plan_items.simps [simp del]

definition parsePlan :: "string \<Rightarrow> AgentPlan" where
  "parsePlan planText =
     (let found = plan_items planText in
      \<lparr>plan_steps = found, dependencies = map (\<lambda>i. (i, [i - 1])) [1 ..< length found]\<rparr>)"

text \<open>
  \<^verbatim>\<open>formatStepsForReflection\<close>: one block per step, in order. The thought and the name of
  the action go through the string conversion of the template string, which may throw.
\<close>

definition formatStep :: "platform \<Rightarrow> AgentStep \<Rightarrow> error + string" where
  "formatStep pf step =
     (case (if truthy (thought step) then to_String pf (thought step) else Inr []) of
        Inl e \<Rightarrow> Inl e
      | Inr th \<Rightarrow>
          (case (case action step of
                   None \<Rightarrow> Inr []
                 | Some a \<Rightarrow> to_String pf (property a ''name'')) of
             Inl e \<Rightarrow> Inl e
           | Inr an \<Rightarrow>
               Inr (''Step '' @ Number_toString pf (of_nat (iteration step)) @ '':''
                    @ (if truthy (thought step) then nl @ ''  Thought: '' @ th else [])
                    @ (case action step of None \<Rightarrow> [] | Some a \<Rightarrow> nl @ ''  Action: '' @ an)
                    @ (case observation step of
                         None \<Rightarrow> []
                       | Some obs \<Rightarrow>
                           nl @ ''  Result: '' @ (if success obs then ''Success'' else ''Failed'')))))"

fun formatSteps :: "platform \<Rightarrow> AgentStep list \<Rightarrow> error + string list" where
  "formatSteps pf [] = Inr []"
| "formatSteps pf (step # rest) =
     (case formatStep pf step of
        Inl e \<Rightarrow> Inl e
      | Inr x \<Rightarrow> (case formatSteps pf rest of Inl e \<Rightarrow> Inl e | Inr xs \<Rightarrow> Inr (x # xs)))"

definition formatStepsForReflection :: "platform \<Rightarrow> AgentStep list \<Rightarrow> error + string" where
  "formatStepsForReflection pf ss =
     (case formatSteps pf ss of Inl e \<Rightarrow> Inl e | Inr xs \<Rightarrow> Inr (join (nl @ nl) xs))"

definition default_reflectionPrompt :: "string \<Rightarrow> string" where
  "default_reflectionPrompt formatted =
     ''Review the steps taken so far and provide:'' @ nl
     @ ''1. What has been accomplished'' @ nl
     @ ''2. What challenges were encountered'' @ nl
     @ ''3. What should be done differently'' @ nl
     @ ''4. Next recommended actions'' @ nl @ nl
     @ ''Steps taken:'' @ nl @ formatted"

text \<open>
  \<^verbatim>\<open>reflect\<close>: without a session or without steps it answers at once and counts nothing;
  otherwise it prompts and then increments the reflection count. The steps are formatted
  only when the configuration gives no reflection prompt (or an empty one).
\<close>

definition reflect ::
  "platform \<Rightarrow> 'c AdvancedAgentConfig_scheme \<Rightarrow> 'a AdvancedAgent_scheme \<Rightarrow> world
   \<Rightarrow> (error + string) \<times> 'a AdvancedAgent_scheme \<times> world" where
  "reflect pf cfg ag w =
     (case agent_session ag of
        None \<Rightarrow> (Inr ''No steps to reflect on'', ag, w)
      | Some sm \<Rightarrow>
          if length (agent_steps ag) = 0 then (Inr ''No steps to reflect on'', ag, w)
          else
            (case (let fallback =
                         (case formatStepsForReflection pf (agent_steps ag) of
                            Inl e \<Rightarrow> Inl e
                          | Inr formatted \<Rightarrow> Inr (default_reflectionPrompt formatted))
                   in case reflectionPrompt cfg of
                        None \<Rightarrow> fallback
                      | Some given \<Rightarrow> if given = [] then fallback else Inr given) of
               Inl e \<Rightarrow> (Inl e, ag, w)
             | Inr question \<Rightarrow>
                 (let ag1 = ag\<lparr>shouldStop := shouldStop ag
                                              \<or> (session sm \<noteq> None \<and> stops w (calls w))\<rparr> in
                  case prompt sm question w of
                    (Inl e, w1) \<Rightarrow> (Inl e, ag1, w1)
                  | (Inr reflection, w1) \<Rightarrow>
                      (Inr reflection, ag1\<lparr>reflectionCount := reflectionCount ag1 + 1\<rparr>, w1))))"

definition default_planningPrompt :: "string \<Rightarrow> string" where
  "default_planningPrompt task =
     ''Create a detailed step-by-step plan to accomplish this task: '' @ dq @ task @ dq @ nl @ nl
     @ ''Break it down into clear, actionable steps. For each step, specify:'' @ nl
     @ ''1. What needs to be done'' @ nl
     @ ''2. What resources or functions might be needed'' @ nl
     @ ''3. Dependencies on other steps''"

definition continuationPrompt :: "string \<Rightarrow> string \<Rightarrow> string" where
  "continuationPrompt reflection task =
     ''Previous attempt was not fully successful. '' @ nl @ nl
     @ ''Reflection:'' @ nl @ reflection @ nl @ nl
     @ ''Please continue with the task: '' @ dq @ task @ dq"

text \<open>
  The \<^verbatim>\<open>while\<close> loop of \<^verbatim>\<open>executeWithReflection\<close>. Nothing in its text bounds the number of
  its iterations, so the model lets it not return: the value is \<open>None\<close> then.
\<close>

partial_function (option) executeWithReflection_loop ::
  "platform \<Rightarrow> 'c AdvancedAgentConfig_scheme \<Rightarrow> string \<Rightarrow> int \<Rightarrow> AgentResult
   \<Rightarrow> 'a AdvancedAgent_scheme \<Rightarrow> world
   \<Rightarrow> ((error + AgentResult) \<times> 'a AdvancedAgent_scheme \<times> world) option" where
  "executeWithReflection_loop pf cfg task maxR res ag w =
     (if status res \<noteq> completed \<and> int (reflectionCount ag) < maxR \<and> \<not> shouldStop ag then
        (case reflect pf cfg ag w of
           (Inl e, ag1, w1) \<Rightarrow> Some (Inl e, ag1, w1)
         | (Inr reflection, ag1, w1) \<Rightarrow>
             (case run pf cfg (continuationPrompt reflection task) ag1 w1 of
                (res', ag2, w2) \<Rightarrow> executeWithReflection_loop pf cfg task maxR res' ag2 w2))
      else Some (Inr res, ag, w))"

text \<open>\<^verbatim>\<open>this.config.maxReflections || 2\<close>: an absent budget and a budget of 0 both give 2.\<close>

definition executeWithReflection ::
  "platform \<Rightarrow> 'c AdvancedAgentConfig_scheme \<Rightarrow> string \<Rightarrow> 'a AdvancedAgent_scheme \<Rightarrow> world
   \<Rightarrow> ((error + AgentResult) \<times> 'a AdvancedAgent_scheme \<times> world) option" where
  "executeWithReflection pf cfg task ag w =
     (let maxR = (case maxReflections cfg of None \<Rightarrow> 2 | Some n \<Rightarrow> if n = 0 then 2 else n) in
      case run pf cfg task ag w of
        (res, ag1, w1) \<Rightarrow> executeWithReflection_loop pf cfg task maxR res ag1 w1)"

text \<open>
  \<^verbatim>\<open>runWithPlanning\<close>. With planning enabled it creates a session, asks for a plan and
  enters the loop above; a throw gives the failed result; at the end the session manager
  that the agent still holds, if any, is destroyed.
\<close>

definition runWithPlanning ::
  "platform \<Rightarrow> 'c AdvancedAgentConfig_scheme \<Rightarrow> string \<Rightarrow> 'a AdvancedAgent_scheme \<Rightarrow> world
   \<Rightarrow> (AgentResult \<times> 'a AdvancedAgent_scheme \<times> world) option" where
  "runWithPlanning pf cfg task ag w =
     (if enablePlanning cfg \<noteq> Some True then Some (run pf cfg task ag w)
      else
        (let ag0 = ag\<lparr>agent_status := running, agent_steps := [], shouldStop := False\<rparr> in
         case create new_SessionManager w of
           (created, sm, w1) \<Rightarrow>
             (let ag1 = ag0\<lparr>shouldStop := stops_creating w (sessions w)\<rparr> in
              case (case created of
                      Inl e \<Rightarrow> Some (Inl e, ag1, w1)
                    | Inr u \<Rightarrow>
                        (let ag2 = ag1\<lparr>agent_session := Some sm,
                                        shouldStop := shouldStop ag1 \<or> stops w1 (calls w1)\<rparr> in
                         case prompt sm (or_default (planningPrompt cfg) (default_planningPrompt task)) w1 of
                           (Inl e, w2) \<Rightarrow> Some (Inl e, ag2, w2)
                         | (Inr planResponse, w2) \<Rightarrow>
                             executeWithReflection pf cfg task
                               (ag2\<lparr>currentPlan := Some (parsePlan planResponse)\<rparr>) w2)) of
                None \<Rightarrow> None
              | Some (outcome, ag3, w3) \<Rightarrow>
                  (let (res, ag4) =
                         (case outcome of
                            Inr res \<Rightarrow> (res, ag3)
                          | Inl e \<Rightarrow>
                              (\<lparr>status = failed, steps = agent_steps ag3, finalAnswer = None,
                                run_error = Some e, iterations = length (agent_steps ag3)\<rparr>,
                               ag3\<lparr>agent_status := failed\<rparr>))
                   in case agent_session ag4 of
                        None \<Rightarrow> Some (res, ag4, w3)
                      | Some s \<Rightarrow>
                          (case destroy s w3 of
                             (s', w4) \<Rightarrow> Some (res, ag4\<lparr>agent_session := None\<rparr>, w4))))))"

section \<open>Sample data\<close>

text \<open>
  A world that answers from a canned list, an example tool of the repository, a tool whose
  schema names a required argument without declaring properties, and a tool whose required
  argument bears a name that every object inherits.
\<close>

definition canned :: "string list \<Rightarrow> nat \<Rightarrow> error + string" where
  "canned rs n = (if n < length rs then Inr (rs ! n) else Inl (NativeError ''no more responses''))"

definition fresh_world :: "(nat \<Rightarrow> error + string) \<Rightarrow> world" where
  "fresh_world f =
     \<lparr>creation = (\<lambda>n. None), native = f, clock = (\<lambda>n. n),
      stops_creating = (\<lambda>n. False), stops = (\<lambda>n. False),
      sessions = 0, calls = 0, trace = []\<rparr>"


definition lookup :: FunctionDefinition where
  "lookup =
     \<lparr>name = ''lookup'',
      description = ''Look a key up'',
      parameters = FunctionParameter ''object'' None None None None (Some [''key'']),
      handler = (\<lambda>args. Inr (Some (JString ''found'')))\<rparr>"


definition call_of :: "string \<Rightarrow> (string \<times> json) list \<Rightarrow> json" where
  "call_of n args = JObject [(''name'', JString n), (''arguments'', JObject args)]"

definition person_schema :: SchemaDefinition where
  "person_schema =
     SchemaDefinition ''object'' (Some [(''name'', plain ''string'')]) None (Some [''name''])
       None None"

definition opened :: "world \<Rightarrow> SessionManager \<times> world" where
  "opened w = snd (create new_SessionManager w)"

definition plodder :: "int \<Rightarrow> AgentConfig" where
  "plodder n =
     \<lparr>maxIterations = n, functions = None, systemPrompt = None, onStep = None,
      stopCondition = None\<rparr>"



definition unprintable_call :: string where
  \<open>unprintable_call = ''{"functionCall":{"name":{"toString":0},"arguments":{}}}''\<close>


definition brooder :: AdvancedAgentConfig where
  "brooder =
     \<lparr>maxIterations = 3, functions = None, systemPrompt = None, onStep = None,
      stopCondition = None, planningPrompt = None, reflectionPrompt = None,
      maxReflections = Some 2, enablePlanning = Some True\<rparr>"

definition one_answer :: "nat \<Rightarrow> error + string" where
  "one_answer n =
     (if n = 0 then Inr ''1. Read the report'' else Inl (NativeError ''The input is too large''))"

section \<open>Properties\<close>

subsection \<open>Schema generation\<close>

lemma properties_ignore_optional:
  "map (\<lambda>kv. (fst kv, zodSchemaToJsonSchema (snd kv))) (map (\<lambda>kv. (fst kv, ZodOptional (snd kv))) shape)
   = map (\<lambda>kv. (fst kv, zodSchemaToJsonSchema (snd kv))) shape"
  by (induction shape) simp_all

text \<open>
  C8. The generator gives a union the wire description of its first option and gives an
  optional or a nullable wrapper the wire description of its inner schema. Inside an
  object the description of a property is the same whether the property is wrapped as
  optional or not; only the object's \<^verbatim>\<open>required\<close> list tells them apart: it holds, in order,
  the keys whose schema is not a \<^verbatim>\<open>ZodOptional\<close> (and is absent when there is none).
\<close>

theorem wrappers_unwrap_and_unions_take_first:
  "generateSchema (ZodUnion t ts) = generateSchema t
   \<and> generateSchema (ZodOptional t) = generateSchema t
   \<and> generateSchema (ZodNullable t) = generateSchema t
   \<and> sproperties (generateSchema (ZodObject (map (\<lambda>kv. (fst kv, ZodOptional (snd kv))) shape)))
       = sproperties (generateSchema (ZodObject shape))
   \<and> srequired (generateSchema (ZodObject shape))
       = (let r = map fst (filter (\<lambda>kv. typeName (snd kv) \<noteq> ''ZodOptional'') shape)
          in if r = [] then None else Some r)"
  by (simp add: generateSchema_def required_keys_def properties_ignore_optional Let_def)

subsection \<open>Sessions\<close>

text \<open>
  C9. Destroying a session manager twice leaves the manager and the outside world exactly
  as destroying it once does: the second call finds no native session, does nothing and
  cannot fail.
\<close>

theorem destroy_twice_is_destroy_once:
  "destroy (fst (destroy sm w)) (snd (destroy sm w)) = destroy sm w
   \<and> session (fst (destroy sm w)) = None"
  by (simp add: destroy_def split: option.splits)

subsection \<open>Function execution\<close>









text \<open>
  C10. When the registered definition's parameter schema has type \<^verbatim>\<open>object\<close> and no
  \<^verbatim>\<open>properties\<close> field, nothing is checked: whatever the \<^verbatim>\<open>required\<close> list and the
  arguments are, the handler is invoked with the arguments and its outcome is the result.
\<close>

theorem without_properties_required_is_not_checked:
  assumes "get registry (property call ''name'') = Some d"
    and "ptype (parameters d) = ''object''"
    and "properties (parameters d) = None"
  shows "executeFunctionCall pf call registry w =
           (Inr (case handler d (property call ''arguments'') of
                   Inl m \<Rightarrow> failing m
                 | Inr r \<Rightarrow> \<lparr>success = True, result = r, error = None\<rparr>),
            emit (Invoked (name d) (property call ''arguments'')) w)"
  using assms
  by (simp add: executeFunctionCall_def validateArguments_def Let_def split: sum.splits)

theorem without_properties_required_is_not_checked_witness:
  "get [(''lookup'', lookup)] (property (call_of ''lookup'' [(''other'', JNull)]) ''name'') = Some lookup
   \<and> ptype (parameters lookup) = ''object''
   \<and> properties (parameters lookup) = None
   \<and> required (parameters lookup) = Some [''key'']
   \<and> js_in sample_platform ''key'' (property (call_of ''lookup'' [(''other'', JNull)]) ''arguments'')
       = Inr False
   \<and> fst (executeFunctionCall sample_platform (call_of ''lookup'' [(''other'', JNull)])
             [(''lookup'', lookup)] (fresh_world (canned [])))
       = Inr \<lparr>success = True, result = Some (JString ''found''), error = None\<rparr>
   \<and> trace (snd (executeFunctionCall sample_platform (call_of ''lookup'' [(''other'', JNull)])
                     [(''lookup'', lookup)] (fresh_world (canned []))))
       = [Invoked ''lookup'' (Some (JObject [(''other'', JNull)]))]"
proof -
  let ?call = "call_of ''lookup'' [(''other'', JNull)]"
  have g: "get [(''lookup'', lookup)] (property ?call ''name'') = Some lookup"
    by (simp add: get_def property_def call_of_def)
  have t: "ptype (parameters lookup) = ''object''"
    by (simp add: lookup_def)
  have p: "properties (parameters lookup) = None"
    by (simp add: lookup_def)
  have r: "required (parameters lookup) = Some [''key'']"
    by (simp add: lookup_def)
  have a: "property ?call ''arguments'' = Some (JObject [(''other'', JNull)])"
    by (simp add: property_def call_of_def)
  have m: "js_in sample_platform ''key'' (property ?call ''arguments'') = Inr False"
    by (simp add: a js_in_def sample_platform_def Object_prototype_names_def)
  have h: "handler lookup (Some (JObject [(''other'', JNull)])) = Inr (Some (JString ''found''))"
    by (simp add: lookup_def)
  have n: "name lookup = ''lookup''"
    by (simp add: lookup_def)
  show ?thesis
    using without_properties_required_is_not_checked
            [OF g t p, where pf = sample_platform and w = "fresh_world (canned [])"] g t p r m a h n
    by (simp add: emit_def fresh_world_def)
qed

subsection \<open>The function-call protocol\<close>

lemma match_object_sublist: "match_object s = Some m \<Longrightarrow> sublist m s"
proof (induction s)
  case Nil
  then show ?case by simp
next
  case (Cons c cs)
  show ?case
  proof (cases "c = CHR ''{'' \<and> CHR ''}'' \<in> set cs")
    case True
    then have "m = through_last (CHR ''}'') (c # cs)"
      using Cons.prems by simp
    moreover have "prefix (through_last (CHR ''}'') (c # cs)) (c # cs)"
      unfolding through_last_def
      by (metis suffix_dropWhile suffix_to_prefix rev_rev_ident)
    ultimately show ?thesis
      by (simp add: prefix_imp_sublist)
  next
    case False
    then have "match_object cs = Some m"
      using Cons.prems by auto
    then have "sublist m cs"
      by (rule Cons.IH)
    then show ?thesis
      by (simp add: sublist_Cons_right)
  qed
qed

lemma no_object_no_call:
  assumes "\<not> contains_json_object pf response"
  shows "parseFunctionCall pf response = Inr (regular response)"
proof (cases "match_object response")
  case None
  then show ?thesis
    by (simp add: parseFunctionCall_def parseFunctionCall_try_def)
next
  case (Some m)
  then have "m \<in> set (sublists response)"
    by (simp add: match_object_sublist)
  then have "\<not> (case JSON_parse pf m of Inr (JObject kvs) \<Rightarrow> True | _ \<Rightarrow> False)"
    using assms by (auto simp: contains_json_object_def list_ex_iff)
  then show ?thesis
    using Some
    by (auto simp: parseFunctionCall_def parseFunctionCall_try_def property_def
             split: sum.splits json.splits)
qed

lemma match_object_whole:
  "match_object (CHR ''{'' # s @ [CHR ''}'']) = Some (CHR ''{'' # s @ [CHR ''}''])"
  by (simp add: through_last_def)

text \<open>
  C5. Whenever the engine's parser reads the envelope text as the object it denotes, the
  codec returns that object's \<^verbatim>\<open>functionCall\<close>, whose name is \<^verbatim>\<open>f\<close> and whose arguments
  are \<^verbatim>\<open>{a: 1}\<close>. And a text of which no contiguous part is a JSON object for the parser
  comes back whole as the regular response.
\<close>

theorem envelope_is_a_call_and_prose_is_regular:
  \<open>(JSON_parse pf ''{"functionCall":{"name":"f","arguments":{"a":1}}}''
      = Inr (JObject [(''functionCall'',
               JObject [(''name'', JString ''f''), (''arguments'', JObject [(''a'', JNumber 1)])])])
    \<longrightarrow> parseFunctionCall pf ''{"functionCall":{"name":"f","arguments":{"a":1}}}''
        = Inr \<lparr>functionCall =
                  Some (JObject [(''name'', JString ''f''), (''arguments'', JObject [(''a'', JNumber 1)])]),
                reasoning = None, regularResponse = None\<rparr>)
   \<and> (\<not> contains_json_object pf response
    \<longrightarrow> parseFunctionCall pf response = Inr (regular response))\<close>
proof (intro conjI impI)
  assume p: \<open>JSON_parse pf ''{"functionCall":{"name":"f","arguments":{"a":1}}}''
      = Inr (JObject [(''functionCall'',
               JObject [(''name'', JString ''f''), (''arguments'', JObject [(''a'', JNumber 1)])])])\<close>
  have m: \<open>match_object ''{"functionCall":{"name":"f","arguments":{"a":1}}}''
           = Some ''{"functionCall":{"name":"f","arguments":{"a":1}}}''\<close>
    using match_object_whole [of \<open>''"functionCall":{"name":"f","arguments":{"a":1}}''\<close>] by simp
  show \<open>parseFunctionCall pf ''{"functionCall":{"name":"f","arguments":{"a":1}}}''
        = Inr \<lparr>functionCall =
                  Some (JObject [(''name'', JString ''f''), (''arguments'', JObject [(''a'', JNumber 1)])]),
                reasoning = None, regularResponse = None\<rparr>\<close>
    unfolding parseFunctionCall_def parseFunctionCall_try_def m
    by (simp add: p property_def)
next
  assume "\<not> contains_json_object pf response"
  then show "parseFunctionCall pf response = Inr (regular response)"
    by (rule no_object_no_call)
qed

theorem envelope_is_a_call_and_prose_is_regular_witness:
  \<open>JSON_parse sample_platform ''{"functionCall":{"name":"f","arguments":{"a":1}}}''
      = Inr (JObject [(''functionCall'',
               JObject [(''name'', JString ''f''), (''arguments'', JObject [(''a'', JNumber 1)])])])
   \<and> parseFunctionCall sample_platform ''{"functionCall":{"name":"f","arguments":{"a":1}}}''
        = Inr \<lparr>functionCall =
                  Some (JObject [(''name'', JString ''f''), (''arguments'', JObject [(''a'', JNumber 1)])]),
                reasoning = None, regularResponse = None\<rparr>
   \<and> \<not> contains_json_object sample_platform ''{no}''
   \<and> parseFunctionCall sample_platform ''{no}'' = Inr (regular ''{no}'')\<close>
proof -
  have h1: \<open>JSON_parse sample_platform ''{"functionCall":{"name":"f","arguments":{"a":1}}}''
      = Inr (JObject [(''functionCall'',
               JObject [(''name'', JString ''f''), (''arguments'', JObject [(''a'', JNumber 1)])])])\<close>
    by code_simp
  have h2: "\<not> contains_json_object sample_platform ''{no}''"
    by code_simp
  show ?thesis
    using envelope_is_a_call_and_prose_is_regular [of sample_platform "''{no}''"] h1 h2
    by blast
qed

text \<open>
  C6. The codec returns for every text. When no braces match, when the engine's parser
  throws on the matched part, or when the parsed value has no \<^verbatim>\<open>functionCall\<close> property,
  what it returns is the regular response made of the whole text.
\<close>

theorem parseFunctionCall_never_throws:
  "(\<exists>r. parseFunctionCall pf response = Inr r)
   \<and> (match_object response = None
        \<or> (\<exists>m e. match_object response = Some m \<and> JSON_parse pf m = Inl e)
        \<or> (\<exists>m v. match_object response = Some m \<and> JSON_parse pf m = Inr v
                  \<and> property v ''functionCall'' = None)
      \<longrightarrow> parseFunctionCall pf response = Inr (regular response))"
  by (auto simp: parseFunctionCall_def parseFunctionCall_try_def split: sum.splits option.splits)

theorem parseFunctionCall_never_throws_witness:
  \<open>(\<exists>r. parseFunctionCall sample_platform ''Sure: {"answer": 42} is it'' = Inr r)
   \<and> (\<exists>m v. match_object ''Sure: {"answer": 42} is it'' = Some m
             \<and> JSON_parse sample_platform m = Inr v \<and> property v ''functionCall'' = None)
   \<and> parseFunctionCall sample_platform ''Sure: {"answer": 42} is it''
       = Inr (regular ''Sure: {"answer": 42} is it'')\<close>
proof -
  have m: \<open>match_object ''Sure: {"answer": 42} is it'' = Some ''{"answer": 42}''\<close>
    by code_simp
  have p: \<open>JSON_parse sample_platform ''{"answer": 42}'' = Inr (JObject [(''answer'', JNumber 42)])\<close>
    by code_simp
  have h: \<open>\<exists>m v. match_object ''Sure: {"answer": 42} is it'' = Some m
             \<and> JSON_parse sample_platform m = Inr v \<and> property v ''functionCall'' = None\<close>
    using m p by (simp add: property_def)
  show ?thesis
    using parseFunctionCall_never_throws [of sample_platform \<open>''Sure: {"answer": 42} is it''\<close>] h
    by blast
qed

subsection \<open>Structured output\<close>

lemma prompt_resolves:
  "session sm = Some h \<Longrightarrow> native w (calls w) = Inr t \<Longrightarrow>
   prompt sm p w = (Inr t, w\<lparr>calls := Suc (calls w), trace := trace w @ [Prompted p]\<rparr>)"
  by (simp add: prompt_def emit_def Let_def)

lemma feedback_is_not_the_request:
  "errorFeedback e \<noteq> createSchemaPrompt pf d @ rest"
  by (simp add: errorFeedback_def createSchemaPrompt_def)

lemma attempt_fails:
  assumes "(\<exists>e. parseJSONResponse pf t = Inl e)
           \<or> (\<exists>v z m. parseJSONResponse pf t = Inr v \<and> sch = Zod z \<and> zod_parse pf z v = Inl m)"
  shows "\<exists>e. parse_and_validate pf sch t = Inl e
             \<and> (parseJSONResponse pf t = Inl e
                \<or> (\<exists>v z m. parseJSONResponse pf t = Inr v \<and> sch = Zod z
                           \<and> zod_parse pf z v = Inl m \<and> e = ZodError m))"
  using assms by (auto simp: parse_and_validate_def)

lemma loop_exhausts:
  assumes "session sm = Some h"
    and "\<forall>j\<le>k. \<exists>t. native w (calls w + 2 * j) = Inr t
           \<and> ((\<exists>e. parseJSONResponse pf t = Inl e)
              \<or> (\<exists>v z m. parseJSONResponse pf t = Inr v \<and> sch = Zod z \<and> zod_parse pf z v = Inl m))"
    and "\<forall>j<k. \<exists>t. native w (calls w + 2 * j + 1) = Inr t"
    and "\<forall>e. errorFeedback e \<noteq> fullPrompt"
    and "k = nat (maxR - attempt - 1)"
    and "attempt < maxR"
  shows "\<exists>t e evs.
           promptWithStructure_loop pf sm fullPrompt sch maxR attempt lastError w =
             (Inl (StructuredOutputError
                     (''Failed to get valid structured output after ''
                      @ Number_toString pf (of_int maxR) @ '' attempts'')
                     (Some e)),
              w\<lparr>calls := calls w + 2 * k + 1, trace := trace w @ evs\<rparr>)
           \<and> native w (calls w + 2 * k) = Inr t
           \<and> (parseJSONResponse pf t = Inl e
              \<or> (\<exists>v z m. parseJSONResponse pf t = Inr v \<and> sch = Zod z
                         \<and> zod_parse pf z v = Inl m \<and> e = ZodError m))
           \<and> length (filter (\<lambda>x. x = Prompted fullPrompt) evs) = Suc k
           \<and> length evs = 2 * k + 1"
  using assms
proof (induction k arbitrary: attempt lastError w)
  case 0
  obtain t where t: "native w (calls w) = Inr t"
    and bad: "(\<exists>e. parseJSONResponse pf t = Inl e)
              \<or> (\<exists>v z m. parseJSONResponse pf t = Inr v \<and> sch = Zod z \<and> zod_parse pf z v = Inl m)"
    using "0.prems"(2) by auto
  obtain e where e: "parse_and_validate pf sch t = Inl e"
    and why: "parseJSONResponse pf t = Inl e
              \<or> (\<exists>v z m. parseJSONResponse pf t = Inr v \<and> sch = Zod z
                         \<and> zod_parse pf z v = Inl m \<and> e = ZodError m)"
    using attempt_fails [OF bad] by blast
  have last: "attempt = maxR - 1"
    using "0.prems"(5,6) by simp
  have "promptWithStructure_loop pf sm fullPrompt sch maxR attempt lastError w =
          (Inl (StructuredOutputError
                  (''Failed to get valid structured output after ''
                   @ Number_toString pf (of_int maxR) @ '' attempts'')
                  (Some e)),
           w\<lparr>calls := Suc (calls w), trace := trace w @ [Prompted fullPrompt]\<rparr>)"
    apply (subst promptWithStructure_loop.simps)
    apply (simp add: prompt_resolves [OF "0.prems"(1) t] e last)
    apply (subst promptWithStructure_loop.simps)
    apply simp
    done
  then show ?case
    using t why by (intro exI [of _ t] exI [of _ e] exI [of _ "[Prompted fullPrompt]"]) simp
next
  case (Suc k)
  obtain t where t: "native w (calls w) = Inr t"
    and bad: "(\<exists>e. parseJSONResponse pf t = Inl e)
              \<or> (\<exists>v z m. parseJSONResponse pf t = Inr v \<and> sch = Zod z \<and> zod_parse pf z v = Inl m)"
    using Suc.prems(2) by auto
  obtain e where e: "parse_and_validate pf sch t = Inl e"
    using attempt_fails [OF bad] by blast
  obtain t' where t': "native w (Suc (calls w)) = Inr t'"
    using Suc.prems(3) by auto
  have more: "attempt < maxR - 1"
    using Suc.prems(5) by simp
  let ?w1 = "w\<lparr>calls := Suc (calls w), trace := trace w @ [Prompted fullPrompt]\<rparr>"
  let ?w2 = "w\<lparr>calls := Suc (Suc (calls w)),
               trace := trace w @ [Prompted fullPrompt, Prompted (errorFeedback e)]\<rparr>"
  have p2: "prompt sm (errorFeedback e) ?w1 = (Inr t', ?w2)"
    using prompt_resolves [OF Suc.prems(1), of ?w1 t' "errorFeedback e"] t' by simp
  have step: "promptWithStructure_loop pf sm fullPrompt sch maxR attempt lastError w =
              promptWithStructure_loop pf sm fullPrompt sch maxR (attempt + 1) (Some e) ?w2"
    apply (subst promptWithStructure_loop.simps)
    apply (simp add: prompt_resolves [OF Suc.prems(1) t] e more p2)
    using more apply simp
    done
  have ih: "\<exists>t3 e3 evs.
           promptWithStructure_loop pf sm fullPrompt sch maxR (attempt + 1) (Some e) ?w2 =
             (Inl (StructuredOutputError
                     (''Failed to get valid structured output after ''
                      @ Number_toString pf (of_int maxR) @ '' attempts'')
                     (Some e3)),
              ?w2\<lparr>calls := calls ?w2 + 2 * k + 1, trace := trace ?w2 @ evs\<rparr>)
           \<and> native ?w2 (calls ?w2 + 2 * k) = Inr t3
           \<and> (parseJSONResponse pf t3 = Inl e3
              \<or> (\<exists>v z m. parseJSONResponse pf t3 = Inr v \<and> sch = Zod z
                         \<and> zod_parse pf z v = Inl m \<and> e3 = ZodError m))
           \<and> length (filter (\<lambda>x. x = Prompted fullPrompt) evs) = Suc k
           \<and> length evs = 2 * k + 1"
  proof (rule Suc.IH)
    show "session sm = Some h" by (rule Suc.prems(1))
    show "\<forall>j\<le>k. \<exists>t. native ?w2 (calls ?w2 + 2 * j) = Inr t
           \<and> ((\<exists>e. parseJSONResponse pf t = Inl e)
              \<or> (\<exists>v z m. parseJSONResponse pf t = Inr v \<and> sch = Zod z \<and> zod_parse pf z v = Inl m))"
    proof (intro allI impI)
      fix j
      assume "j \<le> k"
      then have "Suc j \<le> Suc k" by simp
      from Suc.prems(2) [rule_format, OF this]
      show "\<exists>t. native ?w2 (calls ?w2 + 2 * j) = Inr t
           \<and> ((\<exists>e. parseJSONResponse pf t = Inl e)
              \<or> (\<exists>v z m. parseJSONResponse pf t = Inr v \<and> sch = Zod z \<and> zod_parse pf z v = Inl m))"
        by simp
    qed
    show "\<forall>j<k. \<exists>t. native ?w2 (calls ?w2 + 2 * j + 1) = Inr t"
    proof (intro allI impI)
      fix j
      assume "j < k"
      then have "Suc j < Suc k" by simp
      from Suc.prems(3) [rule_format, OF this]
      show "\<exists>t. native ?w2 (calls ?w2 + 2 * j + 1) = Inr t"
        by simp
    qed
    show "\<forall>e. errorFeedback e \<noteq> fullPrompt" by (rule Suc.prems(4))
    show "k = nat (maxR - (attempt + 1) - 1)" using Suc.prems(5) by simp
    show "attempt + 1 < maxR" using more by simp
  qed
  then obtain t2 e2 evs where r:
    "promptWithStructure_loop pf sm fullPrompt sch maxR (attempt + 1) (Some e) ?w2 =
             (Inl (StructuredOutputError
                     (''Failed to get valid structured output after ''
                      @ Number_toString pf (of_int maxR) @ '' attempts'')
                     (Some e2)),
              ?w2\<lparr>calls := calls ?w2 + 2 * k + 1, trace := trace ?w2 @ evs\<rparr>)"
    "native ?w2 (calls ?w2 + 2 * k) = Inr t2"
    "parseJSONResponse pf t2 = Inl e2
       \<or> (\<exists>v z m. parseJSONResponse pf t2 = Inr v \<and> sch = Zod z
                  \<and> zod_parse pf z v = Inl m \<and> e2 = ZodError m)"
    "length (filter (\<lambda>x. x = Prompted fullPrompt) evs) = Suc k"
    "length evs = 2 * k + 1"
    by blast
  show ?case
    apply (rule exI [of _ t2], rule exI [of _ e2])
    apply (rule exI [of _ "Prompted fullPrompt # Prompted (errorFeedback e) # evs"])
    using r Suc.prems(4) by (simp add: step)
qed

text \<open>
  C3 (amended). Let the session be active and \<^verbatim>\<open>maxRetries = N\<close> be at least 1 (3 when the
  option is absent). The function sends the schema-annotated request, and after each
  failed attempt but the last a feedback prompt, whose response it drops: the responses
  that it reads are the first, the third, ... of the ones it receives. Let each of the
  first \<open>N\<close> of those be unusable: the text extracted from it cannot be parsed as JSON, or
  the schema is a Zod schema whose \<^verbatim>\<open>parse\<close> rejects the parsed value (with a plain schema
  definition only a text that cannot be parsed is unusable). Let the \<open>N - 1\<close> feedback
  prompts between them be answered. Then the function sends the request exactly \<open>N\<close>
  times (\<open>2N - 1\<close> prompt calls in all, a single one when \<open>N = 1\<close>) and throws a
  StructuredOutputError whose cause is the error of the last attempt: the parse error, or
  the error of the Zod validation, of the response to the \<open>N\<close>-th request.
\<close>

theorem exhaustion_after_exactly_maxRetries_attempts:
  assumes "session sm = Some h"
    and "N = (case maxRetries options of None \<Rightarrow> 3 | Some n \<Rightarrow> n)"
    and "1 \<le> N"
    and "\<forall>k<nat N. \<exists>t. native w (calls w + 2 * k) = Inr t
           \<and> ((\<exists>e. parseJSONResponse pf t = Inl e)
              \<or> (\<exists>v z m. parseJSONResponse pf t = Inr v \<and> schema options = Zod z
                         \<and> zod_parse pf z v = Inl m))"
    and "\<forall>k. Suc k < nat N \<longrightarrow> (\<exists>t. native w (calls w + 2 * k + 1) = Inr t)"
    and "fullPrompt =
           createSchemaPrompt pf (case schema options of Zod z \<Rightarrow> generateSchema z | Plain d \<Rightarrow> d)
           @ nl @ nl @ ''User Request: '' @ p"
  shows "\<exists>t e w'.
           promptWithStructure pf sm p options w =
             (Inl (StructuredOutputError
                     (''Failed to get valid structured output after ''
                      @ Number_toString pf (of_int N) @ '' attempts'')
                     (Some e)), w')
           \<and> native w (calls w + 2 * (nat N - 1)) = Inr t
           \<and> (parseJSONResponse pf t = Inl e
              \<or> (\<exists>v z m. parseJSONResponse pf t = Inr v \<and> schema options = Zod z
                         \<and> zod_parse pf z v = Inl m \<and> e = ZodError m))
           \<and> times_sent fullPrompt w w' = nat N
           \<and> calls w' = calls w + (2 * nat N - 1)"
proof -
  have ne: "\<forall>e. errorFeedback e \<noteq> fullPrompt"
    unfolding assms(6) using feedback_is_not_the_request by simp
  have k: "nat N - 1 = nat (N - 0 - 1)"
    using assms(3) by simp
  have pos: "(0::int) < N"
    using assms(3) by simp
  have reads: "\<forall>j\<le>nat N - 1. \<exists>t. native w (calls w + 2 * j) = Inr t
           \<and> ((\<exists>e. parseJSONResponse pf t = Inl e)
              \<or> (\<exists>v z m. parseJSONResponse pf t = Inr v \<and> schema options = Zod z
                         \<and> zod_parse pf z v = Inl m))"
  proof (intro allI impI)
    fix j
    assume "j \<le> nat N - 1"
    then have "j < nat N" using assms(3) by simp
    from assms(4) [rule_format, OF this]
    show "\<exists>t. native w (calls w + 2 * j) = Inr t
           \<and> ((\<exists>e. parseJSONResponse pf t = Inl e)
              \<or> (\<exists>v z m. parseJSONResponse pf t = Inr v \<and> schema options = Zod z
                         \<and> zod_parse pf z v = Inl m))" .
  qed
  have drops: "\<forall>j<nat N - 1. \<exists>t. native w (calls w + 2 * j + 1) = Inr t"
  proof (intro allI impI)
    fix j
    assume "j < nat N - 1"
    then have "Suc j < nat N" by simp
    from assms(5) [rule_format, OF this]
    show "\<exists>t. native w (calls w + 2 * j + 1) = Inr t" .
  qed
  obtain t e evs where r:
    "promptWithStructure_loop pf sm fullPrompt (schema options) N 0 None w =
             (Inl (StructuredOutputError
                     (''Failed to get valid structured output after ''
                      @ Number_toString pf (of_int N) @ '' attempts'')
                     (Some e)),
              w\<lparr>calls := calls w + 2 * (nat N - 1) + 1, trace := trace w @ evs\<rparr>)"
    "native w (calls w + 2 * (nat N - 1)) = Inr t"
    "parseJSONResponse pf t = Inl e
       \<or> (\<exists>v z m. parseJSONResponse pf t = Inr v \<and> schema options = Zod z
                  \<and> zod_parse pf z v = Inl m \<and> e = ZodError m)"
    "length (filter (\<lambda>x. x = Prompted fullPrompt) evs) = Suc (nat N - 1)"
    using loop_exhausts [OF assms(1) reads drops ne k pos, of None] by blast
  have "promptWithStructure pf sm p options w =
          promptWithStructure_loop pf sm fullPrompt (schema options) N 0 None w"
    by (simp add: promptWithStructure_def Let_def assms(2,6))
  then show ?thesis
    using r assms(3)
    by (intro exI [of _ t] exI [of _ e]
          exI [of _ "w\<lparr>calls := calls w + 2 * (nat N - 1) + 1, trace := trace w @ evs\<rparr>"])
       (auto simp: times_sent_def)
qed

theorem exhaustion_after_exactly_maxRetries_attempts_witness:
  \<open>session (fst (opened (fresh_world (canned [''{"age": 5}'', ''One moment'', ''not json''])))) = Some 0
   \<and> parseJSONResponse sample_platform ''{"age": 5}'' = Inr (JObject [(''age'', JNumber 5)])
   \<and> zod_parse sample_platform (ZodObject [(''name'', ZodString)]) (JObject [(''age'', JNumber 5)])
       = Inl ''Invalid input''
   \<and> parseJSONResponse sample_platform ''not json''
       = Inl (StructuredOutputError
                ''Failed to parse JSON response: Unexpected token. Response: not json'' None)
   \<and> fst (promptWithStructure sample_platform
            (fst (opened (fresh_world (canned [''{"age": 5}'', ''One moment'', ''not json'']))))
            ''Who is it?'' \<lparr>schema = Zod (ZodObject [(''name'', ZodString)]), maxRetries = Some 2\<rparr>
            (snd (opened (fresh_world (canned [''{"age": 5}'', ''One moment'', ''not json''])))))
       = Inl (StructuredOutputError
               (''Failed to get valid structured output after ''
                @ Number_toString sample_platform 2 @ '' attempts'')
               (Some (StructuredOutputError
                 ''Failed to parse JSON response: Unexpected token. Response: not json'' None)))
   \<and> times_sent
         (createSchemaPrompt sample_platform (generateSchema (ZodObject [(''name'', ZodString)]))
          @ nl @ nl @ ''User Request: Who is it?'')
         (snd (opened (fresh_world (canned [''{"age": 5}'', ''One moment'', ''not json'']))))
         (snd (promptWithStructure sample_platform
            (fst (opened (fresh_world (canned [''{"age": 5}'', ''One moment'', ''not json'']))))
            ''Who is it?'' \<lparr>schema = Zod (ZodObject [(''name'', ZodString)]), maxRetries = Some 2\<rparr>
            (snd (opened (fresh_world (canned [''{"age": 5}'', ''One moment'', ''not json'']))))))
       = 2
   \<and> calls (snd (promptWithStructure sample_platform
            (fst (opened (fresh_world (canned [''{"age": 5}'', ''One moment'', ''not json'']))))
            ''Who is it?'' \<lparr>schema = Zod (ZodObject [(''name'', ZodString)]), maxRetries = Some 2\<rparr>
            (snd (opened (fresh_world (canned [''{"age": 5}'', ''One moment'', ''not json'']))))))
       = 3\<close>
proof -
  define sm where \<open>sm = fst (opened (fresh_world (canned [''{"age": 5}'', ''One moment'', ''not json''])))\<close>
  define w where \<open>w = snd (opened (fresh_world (canned [''{"age": 5}'', ''One moment'', ''not json''])))\<close>
  define options where "options = \<lparr>schema = Zod (ZodObject [(''name'', ZodString)]), maxRetries = Some 2\<rparr>"
  have s: "session sm = Some 0"
    by (simp add: sm_def opened_def create_def fresh_world_def new_SessionManager_def Let_def)
  have nat: \<open>native w = canned [''{"age": 5}'', ''One moment'', ''not json'']\<close> and c: "calls w = 0"
    by (simp_all add: w_def opened_def create_def fresh_world_def Let_def)
  have j1: \<open>parseJSONResponse sample_platform ''{"age": 5}'' = Inr (JObject [(''age'', JNumber 5)])\<close>
    by code_simp
  have z1: "zod_parse sample_platform (ZodObject [(''name'', ZodString)]) (JObject [(''age'', JNumber 5)])
            = Inl ''Invalid input''"
    by code_simp
  have j3: "parseJSONResponse sample_platform ''not json''
            = Inl (StructuredOutputError
                     ''Failed to parse JSON response: Unexpected token. Response: not json'' None)"
    by code_simp
  have n0: \<open>native w (calls w + 2 * 0) = Inr ''{"age": 5}''\<close>
    and n1: "native w (calls w + 2 * 0 + 1) = Inr ''One moment''"
    and n2: "native w (calls w + 2 * 1) = Inr ''not json''"
    by (simp_all add: c nat canned_def)
  have reads: "\<forall>k<nat 2. \<exists>t. native w (calls w + 2 * k) = Inr t
           \<and> ((\<exists>e. parseJSONResponse sample_platform t = Inl e)
              \<or> (\<exists>v z m. parseJSONResponse sample_platform t = Inr v \<and> schema options = Zod z
                         \<and> zod_parse sample_platform z v = Inl m))"
  proof (intro allI impI)
    fix k :: nat
    assume "k < nat 2"
    then have "k = 0 \<or> k = 1" by auto
    then show "\<exists>t. native w (calls w + 2 * k) = Inr t
           \<and> ((\<exists>e. parseJSONResponse sample_platform t = Inl e)
              \<or> (\<exists>v z m. parseJSONResponse sample_platform t = Inr v \<and> schema options = Zod z
                         \<and> zod_parse sample_platform z v = Inl m))"
    proof
      assume "k = 0"
      then show ?thesis using n0 j1 z1 by (simp add: options_def)
    next
      assume "k = 1"
      then show ?thesis using n2 j3 by simp
    qed
  qed
  have drops: "\<forall>k. Suc k < nat 2 \<longrightarrow> (\<exists>t. native w (calls w + 2 * k + 1) = Inr t)"
    using n1 by auto
  have N: "(2::int) = (case maxRetries options of None \<Rightarrow> 3 | Some n \<Rightarrow> n)"
    by (simp add: options_def)
  have full: "createSchemaPrompt sample_platform (generateSchema (ZodObject [(''name'', ZodString)]))
                @ nl @ nl @ ''User Request: Who is it?''
              = createSchemaPrompt sample_platform
                  (case schema options of Zod z \<Rightarrow> generateSchema z | Plain d \<Rightarrow> d)
                @ nl @ nl @ ''User Request: '' @ ''Who is it?''"
    by (simp add: options_def)
  obtain t e w' where r:
    "promptWithStructure sample_platform sm ''Who is it?'' options w =
             (Inl (StructuredOutputError
                     (''Failed to get valid structured output after ''
                      @ Number_toString sample_platform (of_int 2) @ '' attempts'')
                     (Some e)), w')"
    "native w (calls w + 2 * (nat 2 - 1)) = Inr t"
    "parseJSONResponse sample_platform t = Inl e
       \<or> (\<exists>v z m. parseJSONResponse sample_platform t = Inr v \<and> schema options = Zod z
                  \<and> zod_parse sample_platform z v = Inl m \<and> e = ZodError m)"
    "times_sent (createSchemaPrompt sample_platform (generateSchema (ZodObject [(''name'', ZodString)]))
                 @ nl @ nl @ ''User Request: Who is it?'')
       w w' = nat 2"
    "calls w' = calls w + (2 * nat 2 - 1)"
    using exhaustion_after_exactly_maxRetries_attempts [OF s N _ reads drops full] by auto
  have "t = ''not json''"
    using r(2) n2 by simp
  then have "e = StructuredOutputError
                 ''Failed to parse JSON response: Unexpected token. Response: not json'' None"
    using r(3) j3 by simp
  then show ?thesis
    using s j1 z1 j3 r(1,4,5) c
    unfolding sm_def [symmetric] w_def [symmetric] options_def [symmetric]
    by simp
qed

theorem unvalidated_and_starved_counterexample:
  \<open>srequired person_schema = Some [''name'']
   \<and> fst (promptWithStructure sample_platform
            (fst (opened (fresh_world (canned [''{"age": 5}'']))))
            ''Who is it?'' \<lparr>schema = Plain person_schema, maxRetries = Some 3\<rparr>
            (snd (opened (fresh_world (canned [''{"age": 5}''])))))
       = Inr (JObject [(''age'', JNumber 5)])
   \<and> calls (snd (promptWithStructure sample_platform
            (fst (opened (fresh_world (canned [''{"age": 5}'']))))
            ''Who is it?'' \<lparr>schema = Plain person_schema, maxRetries = Some 3\<rparr>
            (snd (opened (fresh_world (canned [''{"age": 5}'']))))))
       = 1
   \<and> fst (promptWithStructure sample_platform
            (fst (opened (fresh_world (canned [''not json'', ''still not json'', ''no json at all'']))))
            ''Who is it?'' \<lparr>schema = Plain person_schema, maxRetries = Some 3\<rparr>
            (snd (opened (fresh_world (canned [''not json'', ''still not json'', ''no json at all''])))))
       = Inl (SessionError ''Failed to prompt session'' (Some (NativeError ''no more responses'')))
   \<and> times_sent
        (createSchemaPrompt sample_platform person_schema @ nl @ nl @ ''User Request: Who is it?'')
        (snd (opened (fresh_world (canned [''not json'', ''still not json'', ''no json at all'']))))
        (snd (promptWithStructure sample_platform
            (fst (opened (fresh_world (canned [''not json'', ''still not json'', ''no json at all'']))))
            ''Who is it?'' \<lparr>schema = Plain person_schema, maxRetries = Some 3\<rparr>
            (snd (opened (fresh_world (canned [''not json'', ''still not json'', ''no json at all'']))))))
       = 2\<close>
  by code_simp

lemma parse_not_json:
  "JSON_parse pf ''not json'' = Inl m \<Longrightarrow>
   parse_and_validate pf (Plain d) ''not json''
     = Inl (StructuredOutputError (''Failed to parse JSON response: '' @ m @ ''. Response: not json'') None)"
  by (simp add: parse_and_validate_def parseJSONResponse_def trim_def is_js_space_def
        strip_fence_open_def Let_def)

lemma parse_ann:
  \<open>JSON_parse pf ''{"name":"Ann"}'' = Inr v \<Longrightarrow>
   parse_and_validate pf (Plain d) ''{"name":"Ann"}'' = Inr v\<close>
  by (simp add: parse_and_validate_def parseJSONResponse_def trim_def is_js_space_def
        strip_fence_open_def through_last_def Let_def)

text \<open>
  C4 (amended). With the schema of the scenario, \<^verbatim>\<open>maxRetries = 3\<close> and a model that
  answers \<^verbatim>\<open>not json\<close>, then \<^verbatim>\<open>not json again\<close>, then the object text, the function returns
  \<^verbatim>\<open>{name: "Ann"}\<close> from its second attempt. The failed first attempt is followed by a
  feedback prompt that carries its error; that prompt is a call of its own and its
  response, \<^verbatim>\<open>not json again\<close>, is read by nobody. The second attempt sends the
  schema-annotated request again and parses the third response.
\<close>

theorem scenario_succeeds_on_second_attempt:
  assumes "session sm = Some h"
    and "native w (calls w) = Inr ''not json''"
    and "native w (calls w + 1) = Inr ''not json again''"
    and \<open>native w (calls w + 2) = Inr ''{"name":"Ann"}''\<close>
    and "JSON_parse pf ''not json'' = Inl m"
    and \<open>JSON_parse pf ''{"name":"Ann"}'' = Inr (JObject [(''name'', JString ''Ann'')])\<close>
    and "fullPrompt = createSchemaPrompt pf person_schema @ nl @ nl @ ''User Request: '' @ p"
  shows "promptWithStructure pf sm p \<lparr>schema = Plain person_schema, maxRetries = Some 3\<rparr> w =
           (Inr (JObject [(''name'', JString ''Ann'')]),
            w\<lparr>calls := calls w + 3,
              trace := trace w @
                [Prompted fullPrompt,
                 Prompted (errorFeedback (StructuredOutputError
                   (''Failed to parse JSON response: '' @ m @ ''. Response: not json'') None)),
                 Prompted fullPrompt]\<rparr>)"
proof -
  let ?e = "StructuredOutputError (''Failed to parse JSON response: '' @ m @ ''. Response: not json'') None"
  let ?w2 = "w\<lparr>calls := calls w + 2,
               trace := trace w @ [Prompted fullPrompt, Prompted (errorFeedback ?e)]\<rparr>"
  let ?w3 = "w\<lparr>calls := calls w + 3,
               trace := trace w @ [Prompted fullPrompt, Prompted (errorFeedback ?e),
                                   Prompted fullPrompt]\<rparr>"
  have l2: "promptWithStructure_loop pf sm fullPrompt (Plain person_schema) 3 1 (Some ?e) ?w2
            = (Inr (JObject [(''name'', JString ''Ann'')]), ?w3)"
    apply (subst promptWithStructure_loop.simps)
    using assms(1,4) parse_ann [OF assms(6)]
    apply (simp add: prompt_def emit_def Let_def)
    done
  have l1: "promptWithStructure_loop pf sm fullPrompt (Plain person_schema) 3 0 None w
            = (Inr (JObject [(''name'', JString ''Ann'')]), ?w3)"
    apply (subst promptWithStructure_loop.simps)
    using assms(1,2,3) parse_not_json [OF assms(5)] l2
    apply (simp add: prompt_def emit_def Let_def)
    done
  have "promptWithStructure pf sm p \<lparr>schema = Plain person_schema, maxRetries = Some 3\<rparr> w
        = promptWithStructure_loop pf sm fullPrompt (Plain person_schema) 3 0 None w"
    by (simp add: promptWithStructure_def Let_def assms(7))
  then show ?thesis
    by (simp add: l1)
qed

theorem scenario_succeeds_on_second_attempt_witness:
  \<open>session (fst (opened (fresh_world (canned [''not json'', ''not json again'', ''{"name":"Ann"}''])))) = Some 0
   \<and> JSON_parse sample_platform ''not json'' = Inl ''Unexpected token''
   \<and> JSON_parse sample_platform ''{"name":"Ann"}'' = Inr (JObject [(''name'', JString ''Ann'')])
   \<and> fst (promptWithStructure sample_platform
            (fst (opened (fresh_world (canned [''not json'', ''not json again'', ''{"name":"Ann"}'']))))
            ''Who is it?'' \<lparr>schema = Plain person_schema, maxRetries = Some 3\<rparr>
            (snd (opened (fresh_world (canned [''not json'', ''not json again'', ''{"name":"Ann"}''])))))
       = Inr (JObject [(''name'', JString ''Ann'')])\<close>
proof -
  define sm where \<open>sm = fst (opened (fresh_world (canned [''not json'', ''not json again'', ''{"name":"Ann"}''])))\<close>
  define w where \<open>w = snd (opened (fresh_world (canned [''not json'', ''not json again'', ''{"name":"Ann"}''])))\<close>
  have s: "session sm = Some 0"
    by (simp add: sm_def opened_def create_def fresh_world_def new_SessionManager_def Let_def)
  have c: "calls w = 0"
    and nat: \<open>native w = canned [''not json'', ''not json again'', ''{"name":"Ann"}'']\<close>
    by (simp_all add: w_def opened_def create_def fresh_world_def Let_def)
  have n0: "native w (calls w) = Inr ''not json''"
    and n1: "native w (calls w + 1) = Inr ''not json again''"
    and n2: \<open>native w (calls w + 2) = Inr ''{"name":"Ann"}''\<close>
    by (simp_all add: c nat canned_def)
  have j1: "JSON_parse sample_platform ''not json'' = Inl ''Unexpected token''"
    by code_simp
  have j2: \<open>JSON_parse sample_platform ''{"name":"Ann"}'' = Inr (JObject [(''name'', JString ''Ann'')])\<close>
    by code_simp
  show ?thesis
    using scenario_succeeds_on_second_attempt [OF s n0 n1 n2 j1 j2 refl, of "''Who is it?''"] s j1 j2
    unfolding sm_def [symmetric] w_def [symmetric]
    by simp
qed

theorem third_attempt_counterexample:
  \<open>fst (promptWithStructure sample_platform
          (fst (opened (fresh_world (canned [''not json'', ''not json again'', ''{"name":"Ann"}'']))))
          ''Who is it?'' \<lparr>schema = Plain person_schema, maxRetries = Some 3\<rparr>
          (snd (opened (fresh_world (canned [''not json'', ''not json again'', ''{"name":"Ann"}''])))))
     = Inr (JObject [(''name'', JString ''Ann'')])
   \<and> times_sent
        (createSchemaPrompt sample_platform person_schema @ nl @ nl @ ''User Request: Who is it?'')
        (snd (opened (fresh_world (canned [''not json'', ''not json again'', ''{"name":"Ann"}'']))))
        (snd (promptWithStructure sample_platform
          (fst (opened (fresh_world (canned [''not json'', ''not json again'', ''{"name":"Ann"}'']))))
          ''Who is it?'' \<lparr>schema = Plain person_schema, maxRetries = Some 3\<rparr>
          (snd (opened (fresh_world (canned [''not json'', ''not json again'', ''{"name":"Ann"}'']))))))
     = 2\<close>
  by code_simp

subsection \<open>The basic agent\<close>









text \<open>
  A function call whose name the engine cannot convert to a string is outside the
  statement above: the registry does not know the name, the message that says so cannot
  be built, \<^verbatim>\<open>executeFunctionCall\<close> throws and the run ends \<^verbatim>\<open>failed\<close> before its first step
  is recorded.
\<close>

lemma run_fails_when_the_name_cannot_be_printed:
  \<open>status (fst (run sample_platform (plodder 3) ''Think''
        (fst (new_BasicAgent (plodder 3) (fresh_world (canned [unprintable_call]))))
        (fresh_world (canned [unprintable_call])))) = failed
   \<and> iterations (fst (run sample_platform (plodder 3) ''Think''
        (fst (new_BasicAgent (plodder 3) (fresh_world (canned [unprintable_call]))))
        (fresh_world (canned [unprintable_call])))) = 0
   \<and> run_error (fst (run sample_platform (plodder 3) ''Think''
        (fst (new_BasicAgent (plodder 3) (fresh_world (canned [unprintable_call]))))
        (fresh_world (canned [unprintable_call]))))
       = Some (TypeError ''Cannot convert object to primitive value'')\<close>
  by code_simp

subsection \<open>The advanced agent\<close>

lemma run_rejected:
  fixes ag :: "'a AdvancedAgent_scheme"
  assumes "creation w (sessions w) = None"
    and "native w (calls w) = Inl e"
    and "0 < maxIterations cfg"
    and "\<not> stops_creating w (sessions w)"
    and "\<not> stops w (calls w)"
    and "R = run pf cfg task ag w"
  shows "status (fst R) = failed
     \<and> reflectionCount (fst (snd R)) = reflectionCount ag
     \<and> \<not> shouldStop (fst (snd R))
     \<and> agent_session (fst (snd R)) = None
     \<and> creation (snd (snd R)) = creation w
     \<and> native (snd (snd R)) = native w
     \<and> stops_creating (snd (snd R)) = stops_creating w
     \<and> stops (snd (snd R)) = stops w
     \<and> calls (snd (snd R)) = Suc (calls w)"
proof -
  let ?sm = "new_SessionManager\<lparr>session := Some (sessions w), quotaTracker := Some (sessions w)\<rparr>"
  let ?w1 = "w\<lparr>sessions := Suc (sessions w)\<rparr>"
  let ?ag1 = "ag\<lparr>agent_status := running, agent_steps := [],
                  shouldStop := stops_creating w (sessions w), agent_session := Some ?sm\<rparr>"
  let ?w2 = "?w1\<lparr>calls := Suc (calls w), trace := trace w @ [Prompted task]\<rparr>"
  let ?ag2 = "?ag1\<lparr>shouldStop := shouldStop ?ag1 \<or> (session ?sm \<noteq> None \<and> stops ?w1 (calls ?w1))\<rparr>"
  let ?err = "SessionError ''Failed to prompt session'' (Some e)"
  have cr: "create new_SessionManager w = (Inr (), ?sm, ?w1)"
    using assms(1) by (simp add: create_def Let_def)
  have pr: "prompt ?sm task ?w1 = (Inl ?err, ?w2)"
    using assms(2) by (simp add: prompt_def emit_def Let_def)
  have it: "iterate pf cfg ?sm (Suc 0) task ?ag1 ?w1 = (Inl ?err, ?ag2, ?w2)"
    unfolding iterate_def Let_def pr by (simp only: prod.case sum.case)
  have go: "(int 0 < maxIterations cfg \<and> \<not> shouldStop ?ag1) = True"
    using assms(3,4) by simp
  have lp: "run_loop pf cfg ?sm 0 task ?ag1 ?w1 = (Inl ?err, ?ag2, ?w2)"
    by (subst run_loop.simps, subst go) (simp only: it if_True prod.case sum.case)
  have "run pf cfg task ag w =
          (case destroy ?sm ?w2 of
             (sm', w3) \<Rightarrow>
               (\<lparr>status = failed, steps = agent_steps ?ag2, finalAnswer = None,
                 run_error = Some ?err, iterations = length (agent_steps ?ag2)\<rparr>,
                ?ag2\<lparr>agent_status := failed, agent_session := None\<rparr>, w3))"
    unfolding run_def cr by (simp only: prod.case Let_def sum.case lp)
  then show ?thesis
    using assms(4,5,6) by (simp add: destroy_def emit_def)
qed

lemma reflect_without_session:
  "agent_session ag = None \<Longrightarrow> reflect pf cfg ag w = (Inr ''No steps to reflect on'', ag, w)"
  by (simp add: reflect_def)

lemma starved_loop_never_returns:
  fixes ag :: "'a AdvancedAgent_scheme" and cfg :: "'c AdvancedAgentConfig_scheme"
  assumes returns: "executeWithReflection_loop pf cfg task maxR res ag w = Some y"
  shows "\<not> (status res = failed \<and> int (reflectionCount ag) < maxR \<and> \<not> shouldStop ag
            \<and> agent_session ag = None \<and> 0 < maxIterations cfg
            \<and> (\<forall>n. creation w n = None) \<and> (\<forall>n. \<not> stops_creating w n) \<and> (\<forall>n. \<not> stops w n)
            \<and> (\<forall>n. calls w \<le> n \<longrightarrow> (\<exists>e. native w n = Inl e)))"
proof (rule executeWithReflection_loop.raw_induct
         [where P = "\<lambda>pf (cfg :: 'c AdvancedAgentConfig_scheme) task maxR res
                       (ag :: 'a AdvancedAgent_scheme) w y.
            \<not> (status res = failed \<and> int (reflectionCount ag) < maxR \<and> \<not> shouldStop ag
               \<and> agent_session ag = None \<and> 0 < maxIterations cfg
               \<and> (\<forall>n. creation w n = None) \<and> (\<forall>n. \<not> stops_creating w n) \<and> (\<forall>n. \<not> stops w n)
               \<and> (\<forall>n. calls w \<le> n \<longrightarrow> (\<exists>e. native w n = Inl e)))",
          OF _ returns])
  fix loop :: "platform \<Rightarrow> 'c AdvancedAgentConfig_scheme \<Rightarrow> string \<Rightarrow> int \<Rightarrow> AgentResult
               \<Rightarrow> 'a AdvancedAgent_scheme \<Rightarrow> world
               \<Rightarrow> ((error + AgentResult) \<times> 'a AdvancedAgent_scheme \<times> world) option"
  fix pf and cfg :: "'c AdvancedAgentConfig_scheme" and task maxR res
    and ag :: "'a AdvancedAgent_scheme" and w y
  assume IH: "\<And>pf cfg task maxR res ag w y.
        loop pf cfg task maxR res ag w = Some y \<Longrightarrow>
        \<not> (status res = failed \<and> int (reflectionCount ag) < maxR \<and> \<not> shouldStop ag
               \<and> agent_session ag = None \<and> 0 < maxIterations cfg
               \<and> (\<forall>n. creation w n = None) \<and> (\<forall>n. \<not> stops_creating w n) \<and> (\<forall>n. \<not> stops w n)
               \<and> (\<forall>n. calls w \<le> n \<longrightarrow> (\<exists>e. native w n = Inl e)))"
  assume eq: "(if status res \<noteq> completed \<and> int (reflectionCount ag) < maxR \<and> \<not> shouldStop ag
      then case reflect pf cfg ag w of
           (Inl e, ag1, w1) \<Rightarrow> Some (Inl e, ag1, w1)
           | (Inr reflection, ag1, w1) \<Rightarrow>
               case run pf cfg (continuationPrompt reflection task) ag1 w1 of
               (res', ag2, w2) \<Rightarrow> loop pf cfg task maxR res' ag2 w2
      else Some (Inr res, ag, w)) = Some y"
  show "\<not> (status res = failed \<and> int (reflectionCount ag) < maxR \<and> \<not> shouldStop ag
            \<and> agent_session ag = None \<and> 0 < maxIterations cfg
            \<and> (\<forall>n. creation w n = None) \<and> (\<forall>n. \<not> stops_creating w n) \<and> (\<forall>n. \<not> stops w n)
            \<and> (\<forall>n. calls w \<le> n \<longrightarrow> (\<exists>e. native w n = Inl e)))"
  proof
    assume inv: "status res = failed \<and> int (reflectionCount ag) < maxR \<and> \<not> shouldStop ag
            \<and> agent_session ag = None \<and> 0 < maxIterations cfg
            \<and> (\<forall>n. creation w n = None) \<and> (\<forall>n. \<not> stops_creating w n) \<and> (\<forall>n. \<not> stops w n)
            \<and> (\<forall>n. calls w \<le> n \<longrightarrow> (\<exists>e. native w n = Inl e))"
    obtain e where e: "native w (calls w) = Inl e"
      using inv by blast
    define R where "R = run pf cfg (continuationPrompt ''No steps to reflect on'' task) ag w"
    have r: "status (fst R) = failed
     \<and> reflectionCount (fst (snd R)) = reflectionCount ag
     \<and> \<not> shouldStop (fst (snd R))
     \<and> agent_session (fst (snd R)) = None
     \<and> creation (snd (snd R)) = creation w
     \<and> native (snd (snd R)) = native w
     \<and> stops_creating (snd (snd R)) = stops_creating w
     \<and> stops (snd (snd R)) = stops w
     \<and> calls (snd (snd R)) = Suc (calls w)"
    proof -
      have c: "creation w (sessions w) = None" using inv by blast
      have m: "0 < maxIterations cfg" using inv by blast
      have sc: "\<not> stops_creating w (sessions w)" using inv by blast
      have st: "\<not> stops w (calls w)" using inv by blast
      show ?thesis
        by (rule run_rejected [OF c e m sc st R_def])
    qed
    have cond: "(status res \<noteq> completed \<and> int (reflectionCount ag) < maxR \<and> \<not> shouldStop ag) = True"
      using inv by simp
    have refl: "reflect pf cfg ag w = (Inr ''No steps to reflect on'', ag, w)"
      using inv by (simp add: reflect_without_session)
    obtain res' ag2 w2 where R3: "R = (res', ag2, w2)"
      by (cases R) auto
    have run_eq: "run pf cfg (continuationPrompt ''No steps to reflect on'' task) ag w = (res', ag2, w2)"
      using R3 R_def by simp
    have "loop pf cfg task maxR res' ag2 w2 = Some y"
      using eq unfolding cond refl
      by (simp only: if_True prod.case sum.case run_eq)
    then have "\<not> (status res' = failed \<and> int (reflectionCount ag2) < maxR
            \<and> \<not> shouldStop ag2
            \<and> agent_session ag2 = None \<and> 0 < maxIterations cfg
            \<and> (\<forall>n. creation w2 n = None) \<and> (\<forall>n. \<not> stops_creating w2 n)
            \<and> (\<forall>n. \<not> stops w2 n)
            \<and> (\<forall>n. calls w2 \<le> n \<longrightarrow> (\<exists>e. native w2 n = Inl e)))"
      by (rule IH)
    moreover have "status res' = failed \<and> int (reflectionCount ag2) < maxR
            \<and> \<not> shouldStop ag2
            \<and> agent_session ag2 = None \<and> 0 < maxIterations cfg
            \<and> (\<forall>n. creation w2 n = None) \<and> (\<forall>n. \<not> stops_creating w2 n)
            \<and> (\<forall>n. \<not> stops w2 n)
            \<and> (\<forall>n. calls w2 \<le> n \<longrightarrow> (\<exists>e. native w2 n = Inl e))"
      using r inv by (simp add: R3)
    ultimately show False
      by blast
  qed
qed

lemma starved_loop_is_None:
  fixes ag :: "'a AdvancedAgent_scheme" and cfg :: "'c AdvancedAgentConfig_scheme"
  assumes "status res = failed" and "int (reflectionCount ag) < maxR" and "\<not> shouldStop ag"
    and "agent_session ag = None" and "0 < maxIterations cfg"
    and "\<forall>n. creation w n = None" and "\<forall>n. \<not> stops_creating w n" and "\<forall>n. \<not> stops w n"
    and "\<forall>n. calls w \<le> n \<longrightarrow> (\<exists>e. native w n = Inl e)"
  shows "executeWithReflection_loop pf cfg task maxR res ag w = None"
proof (cases "executeWithReflection_loop pf cfg task maxR res ag w")
  case None
  then show ?thesis .
next
  case (Some y)
  then show ?thesis
    using starved_loop_never_returns [OF Some] assms by blast
qed

lemma planning_run_never_returns:
  fixes ag :: "'a AdvancedAgent_scheme" and cfg :: "'c AdvancedAgentConfig_scheme"
  assumes plan: "enablePlanning cfg = Some True"
    and iters: "0 < maxIterations cfg"
    and budget: "int (reflectionCount ag)
                  < (case maxReflections cfg of None \<Rightarrow> 2 | Some n \<Rightarrow> if n = 0 then 2 else n)"
    and born: "\<forall>n. creation w n = None"
    and calm: "\<forall>n. \<not> stops_creating w n" "\<forall>n. \<not> stops w n"
    and first: "native w (calls w) = Inr planResponse"
    and later: "\<forall>n. calls w < n \<longrightarrow> (\<exists>e. native w n = Inl e)"
  shows "runWithPlanning pf cfg task ag w = None"
proof -
  let ?sm = "new_SessionManager\<lparr>session := Some (sessions w), quotaTracker := Some (sessions w)\<rparr>"
  let ?w1 = "w\<lparr>sessions := Suc (sessions w)\<rparr>"
  let ?p = "or_default (planningPrompt cfg) (default_planningPrompt task)"
  let ?w2 = "?w1\<lparr>calls := Suc (calls w), trace := trace w @ [Prompted ?p]\<rparr>"
  let ?ag0 = "ag\<lparr>agent_status := running, agent_steps := [], shouldStop := False\<rparr>"
  let ?ag1 = "?ag0\<lparr>shouldStop := stops_creating w (sessions w)\<rparr>"
  let ?ag2 = "?ag1\<lparr>agent_session := Some ?sm, shouldStop := shouldStop ?ag1 \<or> stops ?w1 (calls ?w1)\<rparr>"
  let ?ag3 = "?ag2\<lparr>currentPlan := Some (parsePlan planResponse)\<rparr>"
  let ?maxR = "case maxReflections cfg of None \<Rightarrow> 2 | Some n \<Rightarrow> if n = 0 then 2 else n"
  have cr: "create new_SessionManager w = (Inr (), ?sm, ?w1)"
    using born by (simp add: create_def Let_def)
  have pr: "prompt ?sm ?p ?w1 = (Inr planResponse, ?w2)"
    using first by (simp add: prompt_def emit_def Let_def)
  define R where "R = run pf cfg task ?ag3 ?w2"
  obtain e where e: "native ?w2 (calls ?w2) = Inl e"
    using later by auto
  have c2: "creation ?w2 (sessions ?w2) = None"
    using born by simp
  have s2: "\<not> stops_creating ?w2 (sessions ?w2)" and t2: "\<not> stops ?w2 (calls ?w2)"
    using calm by simp_all
  have r: "status (fst R) = failed
     \<and> reflectionCount (fst (snd R)) = reflectionCount ?ag3
     \<and> \<not> shouldStop (fst (snd R))
     \<and> agent_session (fst (snd R)) = None
     \<and> creation (snd (snd R)) = creation ?w2
     \<and> native (snd (snd R)) = native ?w2
     \<and> stops_creating (snd (snd R)) = stops_creating ?w2
     \<and> stops (snd (snd R)) = stops ?w2
     \<and> calls (snd (snd R)) = Suc (calls ?w2)"
    by (rule run_rejected [OF c2 e iters s2 t2 R_def])
  obtain res ag4 w4 where R3: "R = (res, ag4, w4)"
    by (cases R) auto
  have loop: "executeWithReflection_loop pf cfg task ?maxR res ag4 w4 = None"
  proof (rule starved_loop_is_None)
    show "status res = failed" using r R3 by simp
    show "int (reflectionCount ag4) < ?maxR" using r R3 budget by simp
    show "\<not> shouldStop ag4" using r R3 by simp
    show "agent_session ag4 = None" using r R3 by simp
    show "0 < maxIterations cfg" by (rule iters)
    show "\<forall>n. creation w4 n = None" using r R3 born by simp
    show "\<forall>n. \<not> stops_creating w4 n" using r R3 calm by simp
    show "\<forall>n. \<not> stops w4 n" using r R3 calm by simp
    show "\<forall>n. calls w4 \<le> n \<longrightarrow> (\<exists>e. native w4 n = Inl e)" using r R3 later by simp
  qed
  have run_eq: "run pf cfg task ?ag3 ?w2 = (res, ag4, w4)"
    using R3 R_def by simp
  have ex: "executeWithReflection pf cfg task ?ag3 ?w2 = None"
    unfolding executeWithReflection_def Let_def run_eq
    by (simp only: prod.case loop)
  have en: "(enablePlanning cfg \<noteq> Some True) = False"
    using plan by simp
  show ?thesis
    unfolding runWithPlanning_def en Let_def cr
    by (simp only: if_False prod.case sum.case pr ex option.case)
qed

text \<open>
  C2, at an input on which the code does not do what the claim says. Planning is enabled,
  the reflection budget is 2 and \<^verbatim>\<open>maxIterations\<close> is 3; the model answers the planning
  prompt and rejects every later prompt; nobody calls \<^verbatim>\<open>stop()\<close>. Every inner run then
  ends \<^verbatim>\<open>failed\<close>, \<^verbatim>\<open>reflect\<close> finds no session (the inner run has destroyed and forgotten
  it) and returns without counting, and the loop starts the next inner run: the call never
  returns.
\<close>

theorem reflection_loop_never_returns:
  "runWithPlanning sample_platform brooder ''Summarise the report''
     (fst (new_AdvancedAgent brooder (fresh_world one_answer))) (fresh_world one_answer)
   = None"
proof (rule planning_run_never_returns)
  show "enablePlanning brooder = Some True"
    by (simp add: brooder_def)
  show "0 < maxIterations brooder"
    by (simp add: brooder_def)
  show "int (reflectionCount (fst (new_AdvancedAgent brooder (fresh_world one_answer))))
        < (case maxReflections brooder of None \<Rightarrow> 2 | Some n \<Rightarrow> if n = 0 then 2 else n)"
    by (simp add: brooder_def new_AdvancedAgent_def new_BasicAgent_def BasicAgent.extend_def)
  show "\<forall>n. creation (fresh_world one_answer) n = None"
    by (simp add: fresh_world_def)
  show "\<forall>n. \<not> stops_creating (fresh_world one_answer) n"
    by (simp add: fresh_world_def)
  show "\<forall>n. \<not> stops (fresh_world one_answer) n"
    by (simp add: fresh_world_def)
  show "native (fresh_world one_answer) (calls (fresh_world one_answer)) = Inr ''1. Read the report''"
    by (simp add: fresh_world_def one_answer_def)
  show "\<forall>n. calls (fresh_world one_answer) < n \<longrightarrow> (\<exists>e. native (fresh_world one_answer) n = Inl e)"
    by (simp add: fresh_world_def one_answer_def)
qed

end
